theory Spec2Isabelle
  imports Main
begin

section \<open>Data model\<close>

text \<open>
  The repository holds two generations of the same file: \<^verbatim>\<open>src/src/sxmlc.c\<close> (the
  current one, called the newer generation below) and \<^verbatim>\<open>src/sxmlc.c\<close> (the older
  one; its definitions carry the suffix \<open>_old\<close>).

  Conventions of the embedding.
  \<^item> A C string is the list of its characters before the terminator.
  \<^item> A pointer that the source tests against \<^verbatim>\<open>NULL\<close> is an \<open>option\<close>.
  \<^item> An array together with its element count (\<^verbatim>\<open>attributes\<close>/\<^verbatim>\<open>n_attributes\<close>,
    \<^verbatim>\<open>children\<close>/\<^verbatim>\<open>n_children\<close>) is a list; the count is its length.
  \<^item> A node owns its children, so the children are values of the node; a pointer into
    a document (\<^verbatim>\<open>father\<close>, the cursor of the tree builder) is the path of child
    indices that leads to the node from the document's node array.
  \<^item> \<^verbatim>\<open>malloc\<close>, \<^verbatim>\<open>realloc\<close> and \<^verbatim>\<open>strdup\<close> are taken to succeed, also for a
    size of zero; a negative size, which is a size beyond any storage once converted to
    \<^verbatim>\<open>size_t\<close>, makes \<^verbatim>\<open>malloc\<close> return \<^verbatim>\<open>NULL\<close>. The capacity of a buffer is not
    modelled.
  \<^item> Behaviour that C leaves undefined is the result \<open>None\<close> of a function that
    returns an \<open>option\<close>.
\<close>

record XMLAttribute =
  a_name :: string
  a_value :: string
  a_active :: bool

type_synonym node_ptr = "nat list"

datatype XMLNode = XMLNode
  (node_tag: "string option")
  (node_text: "string option")
  (node_attributes: "XMLAttribute list")
  (node_children: "XMLNode list")
  (node_tag_type: int)
  (node_father: "node_ptr option")
  (node_active: bool)

definition set_attributes :: "XMLAttribute list \<Rightarrow> XMLNode \<Rightarrow> XMLNode" where
  "set_attributes as n =
     XMLNode (node_tag n) (node_text n) as (node_children n) (node_tag_type n)
       (node_father n) (node_active n)"

section \<open>Attributes of a node (newer generation)\<close>

text \<open>
  The loop of \<^verbatim>\<open>XMLNode_search_attribute\<close>: the first index \<open>i\<close> at or after the
  start whose attribute is active and carries the name, \<open>-1\<close> when there is none.
\<close>

fun search_from :: "XMLAttribute list \<Rightarrow> string \<Rightarrow> int \<Rightarrow> int" where
  "search_from [] nm i = -1"
| "search_from (a # as) nm i =
     (if a_active a \<and> a_name a = nm then i else search_from as nm (i + 1))"

definition XMLNode_search_attribute :: "XMLNode option \<Rightarrow> string option \<Rightarrow> int \<Rightarrow> int" where
  "XMLNode_search_attribute node attr_name isearch =
     (case node of
        None \<Rightarrow> -1
      | Some n \<Rightarrow>
          (case attr_name of
             None \<Rightarrow> -1
           | Some nm \<Rightarrow>
               if nm = [] \<or> isearch < 0 \<or> isearch > int (length (node_attributes n)) then -1
               else search_from (drop (nat isearch) (node_attributes n)) nm isearch))"

text \<open>
  \<^verbatim>\<open>XMLNode_remove_attribute\<close>: the entries after the one removed move down by one
  (\<^verbatim>\<open>memmove\<close>), and the result is the new count.
\<close>

definition XMLNode_remove_attribute :: "XMLNode option \<Rightarrow> int \<Rightarrow> int \<times> XMLNode option" where
  "XMLNode_remove_attribute node i_attr =
     (case node of
        None \<Rightarrow> (-1, None)
      | Some n \<Rightarrow>
          if i_attr < 0 \<or> i_attr \<ge> int (length (node_attributes n)) then (-1, Some n)
          else
            let as = take (nat i_attr) (node_attributes n)
                       @ drop (nat i_attr + 1) (node_attributes n)
            in (int (length as), Some (set_attributes as n)))"

text \<open>
  \<^verbatim>\<open>XMLNode_remove_attribute\<close> of the older generation differs in its guard, which is
  \<^verbatim>\<open>iattr <= 0\<close>.
\<close>

definition XMLNode_remove_attribute_old :: "XMLNode option \<Rightarrow> int \<Rightarrow> int \<times> XMLNode option" where
  "XMLNode_remove_attribute_old node iattr =
     (case node of
        None \<Rightarrow> (-1, None)
      | Some n \<Rightarrow>
          if iattr \<le> 0 \<or> iattr \<ge> int (length (node_attributes n)) then (-1, Some n)
          else
            let as = take (nat iattr) (node_attributes n)
                       @ drop (nat iattr + 1) (node_attributes n)
            in (int (length as), Some (set_attributes as n)))"

text \<open>
  \<^verbatim>\<open>XMLNode_set_attribute\<close>. The appended entry's \<^verbatim>\<open>active\<close> member is never
  assigned by the source: it keeps what the reallocated storage held, which is the
  parameter \<open>junk\<close>. The value is a \<^verbatim>\<open>char*\<close> that the source never tests against
  \<^verbatim>\<open>NULL\<close>; it is a string here.
\<close>

definition XMLNode_set_attribute ::
    "bool \<Rightarrow> XMLNode option \<Rightarrow> string option \<Rightarrow> string \<Rightarrow> int \<times> XMLNode option" where
  "XMLNode_set_attribute junk node attr_name attr_value =
     (case node of
        None \<Rightarrow> (-1, None)
      | Some n \<Rightarrow>
          (case attr_name of
             None \<Rightarrow> (-1, Some n)
           | Some nm \<Rightarrow>
               if nm = [] then (-1, Some n)
               else
                 let i = XMLNode_search_attribute (Some n) (Some nm) 0 in
                 if i \<ge> 0 then
                   (int (length (node_attributes n)),
                    Some (set_attributes
                      ((node_attributes n)[nat i := (node_attributes n ! nat i)\<lparr>a_value := attr_value\<rparr>]) n))
                 else
                   let as = node_attributes n
                        @ [\<lparr>a_name = nm, a_value = attr_value, a_active = junk\<rparr>]
                   in (int (length as), Some (set_attributes as n))))"

section \<open>Characters, strings and tag kinds\<close>

definition isspace :: "char \<Rightarrow> bool" where
  \<comment> \<open>\<^verbatim>\<open>isspace\<close> of \<^verbatim>\<open><ctype.h>\<close> in the C locale: space, tab, line feed, vertical
      tab, form feed and carriage return.\<close>
  "isspace c = (c = CHR 0x20 \<or> c = CHR 0x09 \<or> c = CHR 0x0A \<or> c = CHR 0x0B
                 \<or> c = CHR 0x0C \<or> c = CHR 0x0D)"

definition dquote :: char where "dquote = CHR 0x22"
definition bslash :: char where "bslash = CHR 0x5C"

definition strncmp_eq :: "string \<Rightarrow> string \<Rightarrow> nat \<Rightarrow> bool" where
  \<comment> \<open>\<^verbatim>\<open>strncmp(s, t, n) == 0\<close>: the strings agree on their first \<open>n\<close> characters, or
      end together before that.\<close>
  "strncmp_eq s t n = (take n s = take n t)"

fun strchr :: "string \<Rightarrow> char \<Rightarrow> nat option" where
  \<comment> \<open>\<^verbatim>\<open>strchr\<close>: the offset of the first occurrence, \<open>None\<close> for \<^verbatim>\<open>NULL\<close>.\<close>
  "strchr [] c = None"
| "strchr (x # xs) c = (if x = c then Some 0 else map_option Suc (strchr xs c))"

text \<open>
  Modelled from the spec: the tag kinds are constants of \<^verbatim>\<open>sxmlc.h\<close>, which is not
  under \<^verbatim>\<open>src/\<close>. The spec fixes that a kind is an integer, that the built-in kinds
  are distinct, and that user kinds are the integers at or above a reserved threshold
  (\<^verbatim>\<open>TAG_USER\<close>); the source adds that \<^verbatim>\<open>TAG_NONE\<close> is the \<open>0\<close> that
  \<^verbatim>\<open>XML_parse_1string\<close> returns on error. The numbers below are chosen to be distinct
  and below \<^verbatim>\<open>TAG_USER\<close>; the theorems use nothing else about them.
\<close>

definition TAG_ERROR :: int where "TAG_ERROR = -1"
definition TAG_NONE :: int where "TAG_NONE = 0"
definition TAG_PARTIAL :: int where "TAG_PARTIAL = 1"
definition TAG_FATHER :: int where "TAG_FATHER = 2"
definition TAG_SELF :: int where "TAG_SELF = 3"
definition TAG_INSTR :: int where "TAG_INSTR = 4"
definition TAG_COMMENT :: int where "TAG_COMMENT = 5"
definition TAG_CDATA :: int where "TAG_CDATA = 6"
definition TAG_DOCTYPE :: int where "TAG_DOCTYPE = 7"
definition TAG_END :: int where "TAG_END = 8"
definition TAG_USER :: int where "TAG_USER = 100"

definition set_tag_type :: "int \<Rightarrow> XMLNode \<Rightarrow> XMLNode" where
  "set_tag_type t n =
     XMLNode (node_tag n) (node_text n) (node_attributes n) (node_children n) t
       (node_father n) (node_active n)"

definition set_tag :: "string option \<Rightarrow> XMLNode \<Rightarrow> XMLNode" where
  "set_tag t n =
     XMLNode t (node_text n) (node_attributes n) (node_children n) (node_tag_type n)
       (node_father n) (node_active n)"

definition set_text :: "string option \<Rightarrow> XMLNode \<Rightarrow> XMLNode" where
  "set_text t n =
     XMLNode (node_tag n) t (node_attributes n) (node_children n) (node_tag_type n)
       (node_father n) (node_active n)"

definition set_children :: "XMLNode list \<Rightarrow> XMLNode \<Rightarrow> XMLNode" where
  "set_children cs n =
     XMLNode (node_tag n) (node_text n) (node_attributes n) cs (node_tag_type n)
       (node_father n) (node_active n)"

definition set_father :: "node_ptr option \<Rightarrow> XMLNode \<Rightarrow> XMLNode" where
  "set_father f n =
     XMLNode (node_tag n) (node_text n) (node_attributes n) (node_children n) (node_tag_type n)
       f (node_active n)"

section \<open>Initialising, freeing and copying a node (newer generation)\<close>

text \<open>
  \<^verbatim>\<open>XMLNode_init\<close> assigns every member but \<^verbatim>\<open>father\<close> (and the opaque
  \<^verbatim>\<open>user\<close>, which the model leaves out): the node keeps the father it had.
\<close>

definition XMLNode_init :: "XMLNode \<Rightarrow> XMLNode" where
  "XMLNode_init node = XMLNode None None [] [] TAG_NONE (node_father node) True"

text \<open>
  \<^verbatim>\<open>XMLNode_free\<close> releases the attributes, calls itself on every child, then
  releases the array of pointers to the children, the tag and the text, and resets the
  kind. \<^verbatim>\<open>father\<close> and \<^verbatim>\<open>active\<close> are not touched. The call on a child releases what
  the child holds and not the structure of the child itself, which the source passes to
  \<^verbatim>\<open>free\<close> nowhere. Storage is not represented here: the definition gives the members
  of the node after the call, where the node has no child, and says nothing of what has
  been released.
\<close>

definition XMLNode_free :: "XMLNode \<Rightarrow> XMLNode" where
  \<comment> \<open>Called with \<^verbatim>\<open>NULL\<close> the source returns at once; the argument here is a node.\<close>
  "XMLNode_free node = XMLNode None None [] [] TAG_NONE (node_father node) (node_active node)"

text \<open>
  \<^verbatim>\<open>XMLNode_copy\<close>. The result is the return value and the destination.
  \<^item> The text is copied under the test \<^verbatim>\<open>dst->text != NULL\<close>, made after \<open>dst\<close> has
    been freed.
  \<^item> With \<^verbatim>\<open>copy_children\<close>, each child is copied into \<^verbatim>\<open>dst->children[i]\<close>, an
    element of an array that has just been allocated and never assigned: with at least
    one child the call dereferences an indeterminate pointer, which is undefined.
\<close>

definition XMLNode_copy ::
    "XMLNode option \<Rightarrow> XMLNode option \<Rightarrow> bool \<Rightarrow> (bool \<times> XMLNode option) option" where
  "XMLNode_copy dst src copy_children =
     (case dst of
        None \<Rightarrow> Some (False, None)
      | Some d \<Rightarrow>
          (case src of
             None \<Rightarrow> Some (True, Some (XMLNode_free d))
           | Some s \<Rightarrow>
               let d0 = XMLNode_free d;
                   d1 = (case node_tag s of None \<Rightarrow> d0 | Some t \<Rightarrow> set_tag (Some t) d0) in
               if node_text d1 \<noteq> None \<and> node_text s = None then None
               else
                 let d2 = (if node_text d1 \<noteq> None then set_text (node_text s) d1 else d1);
                     d3 = (if length (node_attributes s) > 0
                           then set_attributes
                                  (map (\<lambda>a. \<lparr>a_name = a_name a, a_value = a_value a,
                                              a_active = a_active a\<rparr>) (node_attributes s)) d2
                           else d2);
                     d4 = XMLNode (node_tag d3) (node_text d3) (node_attributes d3)
                            (node_children d3) (node_tag_type s) (node_father s) (node_active s)
                 in if copy_children \<and> node_children s \<noteq> [] then None
                    else Some (True, Some d4)))"

section \<open>The registry of special tags\<close>

text \<open>\<^verbatim>\<open>struct _Tag\<close>: a kind with its start and end delimiters and their lengths.\<close>

record special_tag =
  t_type :: int
  t_start :: string
  t_len_start :: nat
  t_end :: string
  t_len_end :: nat

definition spec_tags :: "special_tag list" where
  \<comment> \<open>The static table \<^verbatim>\<open>_spec\<close>.\<close>
  "spec_tags =
     [\<lparr>t_type = TAG_INSTR, t_start = ''<?'', t_len_start = 2, t_end = ''?>'', t_len_end = 2\<rparr>,
      \<lparr>t_type = TAG_COMMENT, t_start = ''<!--'', t_len_start = 4, t_end = ''-->'', t_len_end = 3\<rparr>,
      \<lparr>t_type = TAG_CDATA, t_start = ''<![CDATA['', t_len_start = 9, t_end = '']]/>'',
       t_len_end = 4\<rparr>]"

text \<open>
  \<^verbatim>\<open>XML_register_user_tag\<close>. The global \<^verbatim>\<open>_user_tags\<close> is the first argument and
  the second component of the result. An empty end delimiter makes the source read
  \<^verbatim>\<open>end[-1]\<close>, which is undefined.
\<close>

definition XML_register_user_tag ::
    "special_tag list \<Rightarrow> int \<Rightarrow> string option \<Rightarrow> string option
       \<Rightarrow> (bool \<times> special_tag list) option" where
  "XML_register_user_tag user_tags tag_type start end' =
     (if tag_type < TAG_USER then Some (False, user_tags)
      else
        (case start of
           None \<Rightarrow> Some (False, user_tags)
         | Some s \<Rightarrow>
             (case end' of
                None \<Rightarrow> Some (False, user_tags)
              | Some e \<Rightarrow>
                  if s = [] \<or> hd s \<noteq> CHR ''<'' then Some (False, user_tags)
                  else if e = [] then None
                  else if last e \<noteq> CHR ''>'' then Some (False, user_tags)
                  else Some (True,
                         user_tags @ [\<lparr>t_type = tag_type, t_start = s, t_len_start = length s,
                                       t_end = e, t_len_end = length e\<rparr>]))))"

section \<open>The attribute decoder\<close>

text \<open>
  \<^verbatim>\<open>XML_parse_attribute\<close>. \<^verbatim>\<open>str_unescape\<close> and \<^verbatim>\<open>html2str\<close> are functions of
  \<^verbatim>\<open>utils.c\<close>, which is not under \<^verbatim>\<open>src/\<close>: they are parameters. The result is the
  return value (\<open>0\<close> malformed, \<open>1\<close> success, \<open>2\<close> quote at the beginning but not at
  the end) and the attribute written through \<^verbatim>\<open>xmlattr\<close>, which is \<open>None\<close> when the
  source returns before it assigns the members.

  The source also calls \<^verbatim>\<open>str_unescape(xmlattr->name[i])\<close>, whose argument is the
  terminator of the name, a null pointer constant; the name is not changed.

  With a quote the copy loop runs while \<^verbatim>\<open>*(p+1)\<close> is not the terminator, so it leaves
  out the last character of the string, which the source takes to be the closing quote.
  When the opening quote is the last character of the string, \<^verbatim>\<open>p+1\<close> is beyond the
  terminator: that read is undefined.
\<close>

definition XML_parse_attribute ::
    "(string \<Rightarrow> string) \<Rightarrow> (string \<Rightarrow> string) \<Rightarrow> string
       \<Rightarrow> (int \<times> XMLAttribute option) option" where
  "XML_parse_attribute str_unescape html2str str =
     (let n0 = length (takeWhile (\<lambda>c. c \<noteq> CHR ''='' \<and> \<not> isspace c) str);
          n1 = n0 + length (takeWhile isspace (drop n0 str))
      in if \<not> (n1 < length str \<and> str ! n1 = CHR ''='') then Some (0, None)
         else
           let n1' = Suc n1 + length (takeWhile isspace (drop (Suc n1) str));
               remQ = (n1' < length str \<and> str ! n1' = dquote)
           in if remQ \<and> Suc n1' = length str then None
              else
                let raw = (if remQ then butlast (drop (Suc n1') str) else drop n1' str);
                    ret = (if remQ \<and> last str \<noteq> dquote then 2 else 1)
                in Some (ret,
                     Some \<lparr>a_name = take n0 str, a_value = html2str (str_unescape raw),
                           a_active = True\<rparr>))"

section \<open>The tag classifier (newer generation)\<close>

text \<open>
  \<^verbatim>\<open>_parse_special_tag\<close>. The source compares the tail at \<^verbatim>\<open>str + len - len_end\<close>,
  which is before the string when \<^verbatim>\<open>len_end\<close> exceeds \<^verbatim>\<open>len\<close>: undefined. It then
  allocates \<^verbatim>\<open>len - len_start - len_end + 1\<close> characters for the tag. When the
  delimiters overlap by two characters or more that size is negative: \<^verbatim>\<open>malloc\<close>
  returns \<^verbatim>\<open>NULL\<close>, which is assigned to the tag, and the source returns
  \<^verbatim>\<open>TAG_NONE\<close>. When they overlap by one character the size is zero and the count
  given to \<^verbatim>\<open>strncpy\<close> is \<open>-1\<close>: undefined.
\<close>

definition parse_special_tag ::
    "string \<Rightarrow> nat \<Rightarrow> special_tag \<Rightarrow> XMLNode \<Rightarrow> (int \<times> XMLNode) option" where
  "parse_special_tag str len tag node =
     (if \<not> strncmp_eq str (t_start tag) (t_len_start tag) then Some (TAG_NONE, node)
      else if len < t_len_end tag then None
      else if \<not> strncmp_eq (drop (len - t_len_end tag) str) (t_end tag) (t_len_end tag)
        then Some (TAG_PARTIAL, node)
      else if len + 1 < t_len_start tag + t_len_end tag then Some (TAG_NONE, set_tag None node)
      else if len < t_len_start tag + t_len_end tag then None
      else Some (t_type tag,
             set_tag_type (t_type tag)
               (set_tag (Some (take (len - t_len_start tag - t_len_end tag)
                                 (drop (t_len_start tag) str))) node)))"

text \<open>
  The loop over a table of special tags, with the \<^verbatim>\<open>switch\<close> on the kind found:
  \<open>Some None\<close> when no entry matched, \<open>Some (Some r)\<close> when the source returns \<open>r\<close>.
\<close>

fun parse_special_tags ::
    "string \<Rightarrow> nat \<Rightarrow> special_tag list \<Rightarrow> XMLNode \<Rightarrow> (int \<times> XMLNode) option option" where
  "parse_special_tags str len [] node = Some None"
| "parse_special_tags str len (t # ts) node =
     (case parse_special_tag str len t node of
        None \<Rightarrow> None
      | Some (n, node') \<Rightarrow>
          if n = TAG_ERROR then Some (Some (TAG_NONE, node'))
          else if n = TAG_NONE then parse_special_tags str len ts node'
          else Some (Some (n, node')))"

text \<open>
  The scan for the closing quote of an attribute value: \<open>quoted_end cs nn\<close> is the index
  at which the \<^verbatim>\<open>for\<close> loop stops when \<open>cs\<close> is the string from index \<open>nn\<close> on. A
  backslash skips the character after it.
\<close>

fun quoted_end :: "string \<Rightarrow> nat \<Rightarrow> nat" where
  "quoted_end [] nn = nn"
| "quoted_end (c # cs) nn =
     (if c = dquote then nn
      else if c = bslash then quoted_end (drop 1 cs) (nn + 2)
      else quoted_end cs (nn + 1))"

definition attr_value_start :: "string \<Rightarrow> nat \<Rightarrow> nat" where
  \<comment> \<open>\<^verbatim>\<open>while (*p && isspace(*++p)) ;\<close> from the \<^verbatim>\<open>=\<close> at index \<open>e\<close>.\<close>
  "attr_value_start str e = Suc e + length (takeWhile isspace (drop (Suc e) str))"

definition attr_end :: "string \<Rightarrow> nat \<Rightarrow> nat" where
  "attr_end str p =
     (if p < length str \<and> str ! p = dquote then Suc (quoted_end (drop (Suc p) str) (Suc p))
      else Suc p + length (takeWhile (\<lambda>c. \<not> isspace c \<and> c \<noteq> CHR ''/'' \<and> c \<noteq> CHR ''>'')
                             (drop (Suc p) str)))"

text \<open>
  The attribute loop of \<^verbatim>\<open>XML_parse_1string\<close> (\<^verbatim>\<open>while (n < len)\<close>), from the index
  \<open>n\<close> after the tag name.
  \<^item> The source ends the string at \<open>nn\<close> for the call of \<^verbatim>\<open>XML_parse_attribute\<close> and
    restores the character afterwards. When the closing quote is missing, \<open>nn\<close> is one
    past the terminator; the capacity of the line buffer is not modelled, and the fragment
    then runs to the end of the string.
  \<^item> When \<^verbatim>\<open>XML_parse_attribute\<close> returns \<open>0\<close> the source jumps to \<^verbatim>\<open>parse_err\<close>,
    where \<^verbatim>\<open>XMLNode_free\<close> releases the name and value of the attribute slot that has
    just been added and holds indeterminate pointers: undefined.
  \<^item> Leaving the loop without a return is the path the source marks
    \<^verbatim>\<open>WE SHOULD NOT BE HERE!\<close>; it frees the node and returns \<open>0\<close>.
\<close>

function XML_parse_attributes ::
    "(string \<Rightarrow> string) \<Rightarrow> (string \<Rightarrow> string) \<Rightarrow> string \<Rightarrow> nat \<Rightarrow> XMLNode
       \<Rightarrow> (int \<times> XMLNode) option" where
  "XML_parse_attributes str_unescape html2str str n xmlnode =
     (if n < length str then
        (let n1 = n + length (takeWhile isspace (drop n str)) in
         if n1 < length str \<and> str ! n1 = CHR ''>''
           then Some (TAG_FATHER, set_tag_type TAG_FATHER xmlnode)
         else if drop n1 str = ''/>''
           then Some (TAG_SELF, set_tag_type TAG_SELF xmlnode)
         else
           (case strchr (drop n1 str) (CHR ''='') of
              None \<Rightarrow> Some (0, XMLNode_free xmlnode)
            | Some k \<Rightarrow>
                (case XML_parse_attribute str_unescape html2str
                        (take (attr_end str (attr_value_start str (n1 + k)) - n1) (drop n1 str)) of
                   None \<Rightarrow> None
                 | Some (ret, None) \<Rightarrow> None
                 | Some (ret, Some a) \<Rightarrow>
                     XML_parse_attributes str_unescape html2str str
                       (attr_end str (attr_value_start str (n1 + k)))
                       (set_attributes (node_attributes xmlnode @ [a]) xmlnode))))
      else Some (0, XMLNode_free xmlnode))"
  by pat_completeness auto
termination XML_parse_attributes
proof (relation "measure (\<lambda>(su, h, str, n, node). length str - n)", goal_cases)
  case 1
  show ?case by simp
next
  case (2 str_unescape html2str str n xmlnode n1 k r ret a a')
  have ge: "nn \<le> quoted_end cs nn" for cs nn
    by (induction cs nn rule: quoted_end.induct) (auto split: if_splits)
  have e: "p < attr_end str p" for p
    using ge[of "Suc p" "drop (Suc p) str"] by (simp add: attr_end_def)
  have v: "i < attr_value_start str i" for i
    by (simp add: attr_value_start_def)
  have "n \<le> n1 + k" unfolding 2(2) by simp
  also have "\<dots> < attr_value_start str (n1 + k)" by (rule v)
  also have "\<dots> < attr_end str (attr_value_start str (n1 + k))" by (rule e)
  finally show ?case using 2(1) by simp
qed

text \<open>
  \<^verbatim>\<open>XML_parse_1string\<close>, with the global \<^verbatim>\<open>_user_tags\<close> as first argument. The
  result is the return value and the node written through \<^verbatim>\<open>xmlnode\<close>. After the test
  on the first and last characters the string has at least two characters.
\<close>

definition XML_parse_1string ::
    "special_tag list \<Rightarrow> (string \<Rightarrow> string) \<Rightarrow> (string \<Rightarrow> string) \<Rightarrow> string \<Rightarrow> XMLNode
       \<Rightarrow> (int \<times> XMLNode) option" where
  "XML_parse_1string user_tags str_unescape html2str str xmlnode =
     (let len = length str in
      if str = [] \<or> hd str \<noteq> CHR ''<'' \<or> last str \<noteq> CHR ''>'' then Some (0, xmlnode)
      else
        (case parse_special_tags str len spec_tags xmlnode of
           None \<Rightarrow> None
         | Some (Some r) \<Rightarrow> Some r
         | Some None \<Rightarrow>
             if str ! 1 = CHR ''!'' \<and> strncmp_eq str ''<!DOCTYPE'' 9 then
               (let n = 9 + length (takeWhile (\<lambda>c. c \<noteq> CHR ''['') (drop 9 str)) in
                if n < len \<and> \<not> strncmp_eq (drop (len - 2) str) '']>'' 2
                  then Some (TAG_PARTIAL, xmlnode)
                else
                  let nn = (if n < len then 1 else 0) in
                  Some (TAG_DOCTYPE,
                    set_tag_type TAG_DOCTYPE
                      (set_tag (Some (take (len - 10 - nn) (drop 9 str))) xmlnode)))
             else
               (case parse_special_tags str len user_tags xmlnode of
                  None \<Rightarrow> None
                | Some (Some r) \<Rightarrow> Some r
                | Some None \<Rightarrow>
                    let tag_end = (if str ! 1 = CHR ''/'' then 1 else 0);
                        n = 1 + tag_end
                              + length (takeWhile
                                  (\<lambda>c. c \<noteq> CHR ''>'' \<and> c \<noteq> CHR ''/'' \<and> \<not> isspace c)
                                  (drop (1 + tag_end) str));
                        node1 = set_tag (Some (take (n - 1 - tag_end) (drop (1 + tag_end) str)))
                                  xmlnode
                    in if tag_end = 1 then Some (TAG_END, set_tag_type TAG_END node1)
                       else XML_parse_attributes str_unescape html2str str n node1)))"

section \<open>The tag classifier (older generation)\<close>

text \<open>
  Modelled from the spec: \<^verbatim>\<open>TAG_PROLOG\<close> and \<^verbatim>\<open>TAG_PARTIAL_COMMENT\<close> are kinds of
  the older header, which is not under \<^verbatim>\<open>src/\<close>; they stand where the newer generation
  has \<^verbatim>\<open>TAG_INSTR\<close> and \<^verbatim>\<open>TAG_PARTIAL\<close>.
\<close>

definition TAG_PROLOG :: int where "TAG_PROLOG = 4"
definition TAG_PARTIAL_COMMENT :: int where "TAG_PARTIAL_COMMENT = 1"

text \<open>
  \<^verbatim>\<open>_parse_XML_1string\<close> of the older generation. Its attribute loop and its
  \<^verbatim>\<open>parse_XML_attribute\<close> are those of the newer generation, except that the value goes
  through \<^verbatim>\<open>html2str\<close> only. For a prolog or comment too short, the size given to
  \<^verbatim>\<open>malloc\<close> is negative (\<^verbatim>\<open>NULL\<close> is assigned to the tag and the source returns
  \<open>0\<close>), or it is zero and the count given to \<^verbatim>\<open>strncpy\<close> is \<open>-1\<close> (undefined).
\<close>

definition parse_XML_1string_old ::
    "(string \<Rightarrow> string) \<Rightarrow> string \<Rightarrow> XMLNode \<Rightarrow> (int \<times> XMLNode) option" where
  "parse_XML_1string_old html2str str xmlnode =
     (let len = length str in
      if str = [] \<or> hd str \<noteq> CHR ''<'' \<or> last str \<noteq> CHR ''>'' then Some (0, xmlnode)
      else if str ! 1 = CHR ''?'' then
        (let len' = (if str ! (len - 2) = CHR ''?'' then len - 1 else len) in
         if len' < 3 then Some (0, set_tag None xmlnode)
         else if len' < 4 then None
         else Some (TAG_PROLOG,
                set_tag_type TAG_PROLOG (set_tag (Some (take (len' - 4) (drop 2 str))) xmlnode)))
      else if str ! 1 = CHR ''!'' then
        (if \<not> strncmp_eq str ''<!--'' 4 then Some (0, xmlnode)
         else if \<not> strncmp_eq (drop (len - 3) str) ''-->'' 3
           then Some (TAG_PARTIAL_COMMENT, xmlnode)
         else if len < 6 then Some (0, set_tag None xmlnode)
         else if len < 7 then None
         else Some (TAG_COMMENT,
                set_tag_type TAG_COMMENT (set_tag (Some (take (len - 7) (drop 4 str))) xmlnode)))
      else
        let tag_end = (if str ! 1 = CHR ''/'' then 1 else 0);
            n = 1 + tag_end
                  + length (takeWhile
                      (\<lambda>c. c \<noteq> CHR ''>'' \<and> c \<noteq> CHR ''/'' \<and> \<not> isspace c)
                      (drop (1 + tag_end) str));
            node1 = set_tag (Some (take (n - 1 - tag_end) (drop (1 + tag_end) str))) xmlnode
        in if tag_end = 1 then Some (TAG_END, set_tag_type TAG_END node1)
           else XML_parse_attributes id html2str str n node1)"

section \<open>The event source (newer generation)\<close>

text \<open>
  Modelled from the spec: \<^verbatim>\<open>read_line_alloc\<close> and the file it reads belong to
  \<^verbatim>\<open>utils.c\<close> and the C library, not under \<^verbatim>\<open>src/\<close>. Following the spec (the core
  consumes already-materialized text, one tag or text run boundary at a time, delimited by
  \<^verbatim>\<open>>\<close>), an open file is the list of the chunks that the successive calls deliver;
  a call stores the next chunk in the line buffer from offset \<open>i0\<close> on and returns the
  number of characters the buffer then holds, or \<open>0\<close> when the input is exhausted;
  \<^verbatim>\<open>feof\<close> holds when no chunk is left. The count of line feeds serves the diagnostics
  only and is left out, as are the messages written to \<^verbatim>\<open>stderr\<close>.
\<close>

definition read_line_alloc :: "string list \<Rightarrow> string \<Rightarrow> nat \<Rightarrow> nat \<times> string list \<times> string" where
  "read_line_alloc f line i0 =
     (case f of
        [] \<Rightarrow> (0, [], line)
      | c # cs \<Rightarrow> (i0 + length c, cs, take i0 line @ c))"

definition feof :: "string list \<Rightarrow> bool" where
  "feof f = (f = [])"

datatype XMLEvent = XML_EVENT_START | XML_EVENT_END | XML_EVENT_TEXT

text \<open>
  \<^verbatim>\<open>SAX_Callbacks\<close>: a slot is \<open>None\<close> when the function pointer is \<^verbatim>\<open>NULL\<close>. A
  callback works on the user data \<open>'u\<close> and returns whether the parse goes on (the
  source's non-zero), or \<open>None\<close> when its behaviour is undefined. The fourth argument
  of the generic callback is \<^verbatim>\<open>NULL\<close> at every call and is left out.
\<close>

record 'u SAX_Callbacks =
  start_node :: "(XMLNode \<Rightarrow> 'u \<Rightarrow> (bool \<times> 'u) option) option"
  end_node :: "(XMLNode \<Rightarrow> 'u \<Rightarrow> (bool \<times> 'u) option) option"
  new_text :: "(string \<Rightarrow> 'u \<Rightarrow> (bool \<times> 'u) option) option"
  all_event :: "(XMLEvent \<Rightarrow> XMLNode option \<Rightarrow> string option \<Rightarrow> 'u \<Rightarrow> (bool \<times> 'u) option) option"

definition invoke :: "('u \<Rightarrow> (bool \<times> 'u) option) option \<Rightarrow> 'u \<Rightarrow> (bool \<times> 'u) option" where
  \<comment> \<open>\<^verbatim>\<open>if (cb != NULL) exit = !cb(...)\<close>: the result is \<^verbatim>\<open>exit\<close> and the user data.\<close>
  "invoke cb user =
     (case cb of
        None \<Rightarrow> Some (False, user)
      | Some g \<Rightarrow> (case g user of None \<Rightarrow> None | Some (r, user') \<Rightarrow> Some (\<not> r, user')))"

definition invoke2 ::
    "('u \<Rightarrow> (bool \<times> 'u) option) option \<Rightarrow> ('u \<Rightarrow> (bool \<times> 'u) option) option \<Rightarrow> 'u
       \<Rightarrow> (bool \<times> 'u) option" where
  \<comment> \<open>Two callbacks in a row, with \<^verbatim>\<open>if (exit) break;\<close> after each.\<close>
  "invoke2 cb1 cb2 user =
     (case invoke cb1 user of
        None \<Rightarrow> None
      | Some (exit, user1) \<Rightarrow> if exit then Some (True, user1) else invoke cb2 user1)"

text \<open>
  The text before the tag. \<^verbatim>\<open>str_unescape\<close> rewrites the line in place, so the
  generic callback sees the unescaped text when a text callback is registered.
\<close>

definition sax_text ::
    "'u SAX_Callbacks \<Rightarrow> (string \<Rightarrow> string) \<Rightarrow> string \<Rightarrow> 'u \<Rightarrow> (bool \<times> 'u) option" where
  "sax_text sax str_unescape line user =
     (if line \<noteq> [] \<and> (new_text sax \<noteq> None \<or> all_event sax \<noteq> None) then
        let line' = (if new_text sax \<noteq> None then str_unescape line else line) in
        invoke2 (map_option (\<lambda>g. g line') (new_text sax))
                (map_option (\<lambda>g. g XML_EVENT_TEXT None (Some line')) (all_event sax)) user
      else Some (False, user))"

definition sax_end :: "'u SAX_Callbacks \<Rightarrow> XMLNode \<Rightarrow> 'u \<Rightarrow> (bool \<times> 'u) option" where
  "sax_end sax node user =
     invoke2 (map_option (\<lambda>g. g node) (end_node sax))
             (map_option (\<lambda>g. g XML_EVENT_END (Some node) None) (all_event sax)) user"

definition sax_start :: "'u SAX_Callbacks \<Rightarrow> XMLNode \<Rightarrow> 'u \<Rightarrow> (bool \<times> 'u) option" where
  "sax_start sax node user =
     (case invoke2 (map_option (\<lambda>g. g node) (start_node sax))
                   (map_option (\<lambda>g. g XML_EVENT_START (Some node) None) (all_event sax)) user of
        None \<Rightarrow> None
      | Some (exit, user1) \<Rightarrow>
          if exit then Some (True, user1)
          else if node_tag_type node \<noteq> TAG_FATHER
                  \<and> (end_node sax \<noteq> None \<or> all_event sax \<noteq> None)
            then sax_end sax node user1
          else Some (False, user1))"

text \<open>
  The inner loop \<^verbatim>\<open>while (tag_type == TAG_PARTIAL)\<close>: \<open>k\<close> is the offset of
  \<^verbatim>\<open>txt_end\<close> in the line. The result is \<^verbatim>\<open>ret\<close>, the kind, the node and the rest of
  the file.
\<close>

fun read_partial ::
    "special_tag list \<Rightarrow> (string \<Rightarrow> string) \<Rightarrow> (string \<Rightarrow> string) \<Rightarrow> string list \<Rightarrow> string
       \<Rightarrow> nat \<Rightarrow> int \<Rightarrow> XMLNode \<Rightarrow> (bool \<times> int \<times> XMLNode \<times> string list) option" where
  "read_partial ut su h [] line k tag_type node =
     (if tag_type = TAG_PARTIAL then Some (False, tag_type, node, [])
      else Some (True, tag_type, node, []))"
| "read_partial ut su h (c # cs) line k tag_type node =
     (if tag_type = TAG_PARTIAL then
        (case read_line_alloc (c # cs) line (length line) of
           (n0, f', line') \<Rightarrow>
             (case XML_parse_1string ut su h (drop k line') node of
                None \<Rightarrow> None
              | Some (tag_type', node') \<Rightarrow> read_partial ut su h cs line' k tag_type' node'))
      else Some (True, tag_type, node, c # cs))"

text \<open>
  One iteration of the loop of \<^verbatim>\<open>XMLDoc_parse_file_SAX\<close>, from the line just read
  to the test that ends the iteration. The result is whether the loop is left
  (\<^verbatim>\<open>break\<close>), \<^verbatim>\<open>ret\<close>, the rest of the file, the node and the user data.
\<close>

definition sax_iteration ::
    "special_tag list \<Rightarrow> (string \<Rightarrow> string) \<Rightarrow> (string \<Rightarrow> string) \<Rightarrow> 'u SAX_Callbacks
       \<Rightarrow> string list \<Rightarrow> string \<Rightarrow> XMLNode \<Rightarrow> 'u
       \<Rightarrow> (bool \<times> bool \<times> string list \<times> XMLNode \<times> 'u) option" where
  "sax_iteration ut su h sax f line node0 user =
     (let node = XMLNode_free node0 in
      if list_all isspace line then Some (True, True, f, node, user)
      else
        (case strchr line (CHR ''<'') of
           None \<Rightarrow> Some (True, False, f, node, user)
         | Some k \<Rightarrow>
             (case sax_text sax su (take k line) user of
                None \<Rightarrow> None
              | Some (exit, user1) \<Rightarrow>
                  if exit then Some (True, True, f, node, user1)
                  else
                    (case XML_parse_1string ut su h (drop k line) node of
                       None \<Rightarrow> None
                     | Some (tag_type, node1) \<Rightarrow>
                         if tag_type = 0 then Some (True, False, f, node1, user1)
                         else if tag_type = TAG_END
                                 \<and> (end_node sax \<noteq> None \<or> all_event sax \<noteq> None) then
                           (case sax_end sax node1 user1 of
                              None \<Rightarrow> None
                            | Some (exit, user2) \<Rightarrow>
                                Some (exit \<or> feof f, True, f, node1, user2))
                         else
                           (case read_partial ut su h f line k tag_type node1 of
                              None \<Rightarrow> None
                            | Some (ret, tag_type', node2, f') \<Rightarrow>
                                if \<not> ret then Some (True, False, f', node2, user1)
                                else
                                  (case sax_start sax node2 user1 of
                                     None \<Rightarrow> None
                                   | Some (exit, user2) \<Rightarrow>
                                       Some (exit \<or> feof f', True, f', node2, user2)))))))"

function XMLDoc_parse_loop ::
    "special_tag list \<Rightarrow> (string \<Rightarrow> string) \<Rightarrow> (string \<Rightarrow> string) \<Rightarrow> 'u SAX_Callbacks
       \<Rightarrow> string list \<Rightarrow> XMLNode \<Rightarrow> 'u \<Rightarrow> (bool \<times> 'u) option" where
  "XMLDoc_parse_loop ut su h sax f node user =
     (case read_line_alloc f [] 0 of
        (n0, f1, line) \<Rightarrow>
          if n0 = 0 then Some (True, user)
          else
            (case sax_iteration ut su h sax f1 line node user of
               None \<Rightarrow> None
             | Some (stop, ret, f2, node', user') \<Rightarrow>
                 if stop then Some (ret, user')
                 else XMLDoc_parse_loop ut su h sax f2 node' user'))"
  by pat_completeness auto
termination
proof (relation "measure (\<lambda>(ut, su, h, sax, f, node, user). length f)", goal_cases)
  case 1
  show ?case by simp
next
  case (2 ut su h sax f node user n0 r1 f1 line it stop r2 ret r3 f2 r4 node' user')
  have rp: "read_partial ut su h g l k t n = Some (a, b, m, g') \<Longrightarrow> length g' \<le> length g"
    for g l k t n a b m g'
  proof (induction g arbitrary: l t n)
    case Nil
    then show ?case by (auto split: if_splits)
  next
    case (Cons c cs)
    show ?case
    proof (cases "t = TAG_PARTIAL")
      case True
      with Cons.prems obtain t' n' where
        "read_partial ut su h cs (l @ c) k t' n' = Some (a, b, m, g')"
        by (auto simp: read_line_alloc_def split: option.splits prod.splits)
      from Cons.IH[OF this] show ?thesis by simp
    next
      case False
      with Cons.prems show ?thesis by auto
    qed
  qed
  have rd: "read_line_alloc f [] 0 = (n0, f1, line)" using 2(1,2) by simp
  have it: "sax_iteration ut su h sax f1 line node user = Some (stop, ret, f2, node', user')"
    using 2 by simp
  have "f \<noteq> []" using rd 2(3) by (auto simp: read_line_alloc_def)
  moreover have "f1 = tl f" using rd by (auto simp: read_line_alloc_def split: list.splits)
  moreover have "length f2 \<le> length f1"
    using it rp unfolding sax_iteration_def Let_def
    by (auto split: if_splits option.splits prod.splits)
  ultimately show ?case by (cases f) auto
qed

text \<open>
  \<^verbatim>\<open>XMLDoc_parse_file_SAX\<close>. \<open>fopen\<close> gives the chunks of a file, or \<open>None\<close> when
  it cannot be opened. The local \<^verbatim>\<open>node\<close> is initialised storage whose \<^verbatim>\<open>father\<close>
  member no statement assigns; \<open>None\<close> stands for it.
\<close>

definition XMLDoc_parse_file_SAX ::
    "special_tag list \<Rightarrow> (string \<Rightarrow> string) \<Rightarrow> (string \<Rightarrow> string)
       \<Rightarrow> (string \<Rightarrow> string list option) \<Rightarrow> string \<Rightarrow> 'u SAX_Callbacks \<Rightarrow> 'u
       \<Rightarrow> (bool \<times> 'u) option" where
  "XMLDoc_parse_file_SAX ut su h fopen filename sax user =
     (if filename = [] then Some (False, user)
      else
        (case fopen filename of
           None \<Rightarrow> Some (False, user)
         | Some f \<Rightarrow>
             XMLDoc_parse_loop ut su h sax f
               (XMLNode_init (XMLNode None None [] [] TAG_NONE None True)) user))"

section \<open>The tree builder (newer generation)\<close>

text \<open>
  Modelled from the spec: \<^verbatim>\<open>XMLDOC_INIT_DONE\<close> is a constant of \<^verbatim>\<open>sxmlc.h\<close>, not under
  \<^verbatim>\<open>src/\<close>; it marks a document that \<^verbatim>\<open>XMLDoc_init\<close> has initialised (the spec: a
  document is unusable before), and its value is of no consequence. The
  \<^verbatim>\<open>filename\<close> member of the document is left out.
\<close>

definition XMLDOC_INIT_DONE :: int where "XMLDOC_INIT_DONE = 0x19770522"

record XMLDoc =
  doc_nodes :: "XMLNode list"
  doc_i_root :: int
  doc_init_value :: int

record DOM_through_SAX =
  dom_doc :: XMLDoc
  dom_current :: "node_ptr option"

definition XMLDoc_init :: "XMLDoc \<Rightarrow> XMLDoc" where
  "XMLDoc_init doc = \<lparr>doc_nodes = [], doc_i_root = -1, doc_init_value = XMLDOC_INIT_DONE\<rparr>"

definition XMLDoc_free :: "XMLDoc \<Rightarrow> bool \<times> XMLDoc" where
  "XMLDoc_free doc =
     (if doc_init_value doc \<noteq> XMLDOC_INIT_DONE then (False, doc)
      else (True, XMLDoc_init (doc\<lparr>doc_nodes := map XMLNode_free (doc_nodes doc)\<rparr>)))"

text \<open>
  A pointer to a node of the document is a path: \<open>[i]\<close> is \<^verbatim>\<open>doc->nodes[i]\<close>, and
  \<open>p @ [j]\<close> is child \<open>j\<close> of the node at \<open>p\<close>. \<open>node_at\<close> dereferences a pointer
  (\<open>None\<close> when it points to no node); \<open>update_at\<close> assigns through it.
\<close>

fun node_at :: "XMLNode list \<Rightarrow> node_ptr \<Rightarrow> XMLNode option" where
  "node_at ns [] = None"
| "node_at ns [i] = (if i < length ns then Some (ns ! i) else None)"
| "node_at ns (i # j # p) =
     (if i < length ns then node_at (node_children (ns ! i)) (j # p) else None)"

fun update_at :: "(XMLNode \<Rightarrow> XMLNode) \<Rightarrow> node_ptr \<Rightarrow> XMLNode list \<Rightarrow> XMLNode list" where
  "update_at g [] ns = ns"
| "update_at g [i] ns = (if i < length ns then ns[i := g (ns ! i)] else ns)"
| "update_at g (i # j # p) ns =
     (if i < length ns
      then ns[i := set_children (update_at g (j # p) (node_children (ns ! i))) (ns ! i)]
      else ns)"

definition XMLNode_alloc :: "int \<Rightarrow> XMLNode list option" where
  \<comment> \<open>An array of \<open>n\<close> initialised nodes; their \<^verbatim>\<open>father\<close> is not assigned (\<open>None\<close> stands
      for it).\<close>
  "XMLNode_alloc n =
     (if n \<le> 0 then None
      else Some (replicate (nat n) (XMLNode_init (XMLNode None None [] [] TAG_NONE None True))))"

text \<open>
  \<^verbatim>\<open>DOMXMLDoc_node_start\<close>: the new node is a copy, without children, of the node of the
  event; it goes to the document's array when no element is open and to the children of
  the cursor otherwise, and becomes the cursor.
\<close>

definition DOMXMLDoc_node_start ::
    "XMLNode \<Rightarrow> DOM_through_SAX \<Rightarrow> (bool \<times> DOM_through_SAX) option" where
  "DOMXMLDoc_node_start node dm =
     (case XMLNode_copy (map_option hd (XMLNode_alloc 1)) (Some node) False of
        None \<Rightarrow> None
      | Some (ok, None) \<Rightarrow> Some (False, dm)
      | Some (ok, Some new_node) \<Rightarrow>
          if \<not> ok then Some (False, dm)
          else
            (case dom_current dm of
               None \<Rightarrow>
                 let doc = dom_doc dm;
                     i = length (doc_nodes doc);
                     doc' = doc\<lparr>doc_nodes := doc_nodes doc @ [set_father None new_node],
                                doc_i_root := (if doc_i_root doc < 0 \<and> node_tag_type node = TAG_FATHER
                                               then int i else doc_i_root doc)\<rparr>
                 in Some (True, \<lparr>dom_doc = doc', dom_current = Some [i]\<rparr>)
             | Some cur \<Rightarrow>
                 (case node_at (doc_nodes (dom_doc dm)) cur of
                    None \<Rightarrow> None
                  | Some c \<Rightarrow>
                      let doc = dom_doc dm;
                          j = length (node_children c);
                          doc' = doc\<lparr>doc_nodes :=
                                   update_at (\<lambda>c. set_children
                                       (node_children c @ [set_father (Some cur) new_node]) c)
                                     cur (doc_nodes doc)\<rparr>
                      in Some (True, \<lparr>dom_doc = doc', dom_current = Some (cur @ [j])\<rparr>))))"

text \<open>\<^verbatim>\<open>DOMXMLDoc_node_end\<close>: the node of the event is not read.\<close>

definition DOMXMLDoc_node_end ::
    "XMLNode \<Rightarrow> DOM_through_SAX \<Rightarrow> (bool \<times> DOM_through_SAX) option" where
  "DOMXMLDoc_node_end node dm =
     (case dom_current dm of
        None \<Rightarrow> Some (False, dm)
      | Some cur \<Rightarrow>
          (case node_at (doc_nodes (dom_doc dm)) cur of
             None \<Rightarrow> None
           | Some c \<Rightarrow> Some (True, dm\<lparr>dom_current := node_father c\<rparr>)))"

text \<open>
  \<^verbatim>\<open>DOMXMLDoc_node_text\<close>. The loop \<^verbatim>\<open>while(*p && isspace(*p++)) ;\<close> increments
  \<open>p\<close> also when the character is not a space, so \<open>p\<close> ends one past the first character
  that is not a space (or at the terminator when there is none). The text of the cursor is
  assigned the duplicate of the event's text.
\<close>

definition DOMXMLDoc_node_text ::
    "string \<Rightarrow> DOM_through_SAX \<Rightarrow> (bool \<times> DOM_through_SAX) option" where
  "DOMXMLDoc_node_text text dm =
     (let k = length (takeWhile isspace text);
          p = (if k = length text then k else Suc k)
      in if p = length text then Some (True, dm)
         else
           (case dom_current dm of
              None \<Rightarrow> Some (False, dm)
            | Some cur \<Rightarrow>
                (case node_at (doc_nodes (dom_doc dm)) cur of
                   None \<Rightarrow> None
                 | Some c \<Rightarrow>
                     Some (True,
                       dm\<lparr>dom_doc := (dom_doc dm)\<lparr>doc_nodes :=
                              update_at (set_text (Some text)) cur (doc_nodes (dom_doc dm))\<rparr>\<rparr>))))"

definition dom_callbacks :: "DOM_through_SAX SAX_Callbacks" where
  "dom_callbacks =
     \<lparr>start_node = Some DOMXMLDoc_node_start, end_node = Some DOMXMLDoc_node_end,
      new_text = Some DOMXMLDoc_node_text, all_event = None\<rparr>"

text \<open>
  \<^verbatim>\<open>XMLDoc_parse_file_DOM\<close>: the result is the return value and the document.
\<close>

definition XMLDoc_parse_file_DOM ::
    "special_tag list \<Rightarrow> (string \<Rightarrow> string) \<Rightarrow> (string \<Rightarrow> string)
       \<Rightarrow> (string \<Rightarrow> string list option) \<Rightarrow> string \<Rightarrow> XMLDoc \<Rightarrow> (bool \<times> XMLDoc) option" where
  "XMLDoc_parse_file_DOM ut su h fopen filename doc =
     (if filename = [] \<or> doc_init_value doc \<noteq> XMLDOC_INIT_DONE then Some (False, doc)
      else
        (case XMLDoc_parse_file_SAX ut su h fopen filename dom_callbacks
                \<lparr>dom_doc = doc, dom_current = None\<rparr> of
           None \<Rightarrow> None
         | Some (ret, dm) \<Rightarrow>
             if \<not> ret then Some (False, snd (XMLDoc_free (dom_doc dm)))
             else Some (True, dom_doc dm)))"


section \<open>The event source (older generation)\<close>

text \<open>
  \<^verbatim>\<open>XMLNode_init\<close> and \<^verbatim>\<open>XMLNode_free\<close> of the older generation: the first does
  not assign \<^verbatim>\<open>active\<close>, the second does not reset the kind.
\<close>

definition XMLNode_init_old :: "XMLNode \<Rightarrow> XMLNode" where
  "XMLNode_init_old node = XMLNode None None [] [] TAG_NONE (node_father node) (node_active node)"

definition XMLNode_free_old :: "XMLNode \<Rightarrow> XMLNode" where
  "XMLNode_free_old node =
     XMLNode None None [] [] (node_tag_type node) (node_father node) (node_active node)"

text \<open>
  \<^verbatim>\<open>XMLNode_copy\<close> of the older generation. It allocates \<^verbatim>\<open>strlen(src->tag)\<close>
  characters for the tag and never writes them: the tag of the destination is not
  \<^verbatim>\<open>NULL\<close> and its content is what the storage held, the parameter \<open>junk\<close>. The
  attributes are copied into a new array, but \<^verbatim>\<open>n_attributes\<close> of the destination
  stays \<open>0\<close>, so the destination has no attribute; so for the children. A source without
  tag makes \<^verbatim>\<open>strlen\<close> read \<^verbatim>\<open>NULL\<close>, and copying a child dereferences a pointer that
  was never assigned: both undefined.
\<close>

definition XMLNode_copy_old ::
    "string \<Rightarrow> XMLNode option \<Rightarrow> XMLNode option \<Rightarrow> bool \<Rightarrow> (bool \<times> XMLNode option) option" where
  "XMLNode_copy_old junk dst src copy_children =
     (case dst of
        None \<Rightarrow> Some (False, None)
      | Some d \<Rightarrow>
          (case src of
             None \<Rightarrow> Some (True, Some (XMLNode_free_old d))
           | Some s \<Rightarrow>
               (case node_tag s of
                  None \<Rightarrow> None
                | Some t \<Rightarrow>
                    if copy_children \<and> node_children s \<noteq> [] then None
                    else Some (True, Some (set_tag (Some junk) (XMLNode_free_old d))))))"

text \<open>
  \<^verbatim>\<open>SAX_Callbacks\<close> of the older generation: the callbacks take no user data and act
  on the program's state, which is \<open>'u\<close> here.
\<close>

record 'u SAX_Callbacks_old =
  start_doc_old :: "(XMLNode \<Rightarrow> 'u \<Rightarrow> (bool \<times> 'u) option) option"
  end_doc_old :: "(XMLNode \<Rightarrow> 'u \<Rightarrow> (bool \<times> 'u) option) option"
  start_node_old :: "(XMLNode \<Rightarrow> 'u \<Rightarrow> (bool \<times> 'u) option) option"
  end_node_old :: "(XMLNode \<Rightarrow> 'u \<Rightarrow> (bool \<times> 'u) option) option"
  new_text_old :: "(string \<Rightarrow> 'u \<Rightarrow> (bool \<times> 'u) option) option"
  new_attribute_old :: "(string \<Rightarrow> string \<Rightarrow> 'u \<Rightarrow> (bool \<times> 'u) option) option"

fun read_partial_old ::
    "(string \<Rightarrow> string) \<Rightarrow> string list \<Rightarrow> string \<Rightarrow> nat \<Rightarrow> int \<Rightarrow> XMLNode
       \<Rightarrow> (bool \<times> int \<times> XMLNode \<times> string list) option" where
  "read_partial_old h [] line k tag_type node =
     (if tag_type = TAG_PARTIAL_COMMENT then Some (False, tag_type, node, [])
      else Some (True, tag_type, node, []))"
| "read_partial_old h (c # cs) line k tag_type node =
     (if tag_type = TAG_PARTIAL_COMMENT then
        (case read_line_alloc (c # cs) line (length line) of
           (n0, f', line') \<Rightarrow>
             (case parse_XML_1string_old h (drop k line') node of
                None \<Rightarrow> None
              | Some (tag_type', node') \<Rightarrow> read_partial_old h cs line' k tag_type' node'))
      else Some (True, tag_type, node, c # cs))"

text \<open>
  The dispatch of a node that is not an end tag (\<^verbatim>\<open>src/sxmlc.c\<close>, lines 799 to 827):
  the result is \<^verbatim>\<open>ret\<close>, \<^verbatim>\<open>exit\<close>, the root and the user data. Before the root is
  known, the end callback of a prolog or comment is called whatever the start callback
  returned. The call \<^verbatim>\<open>XMLNode_copy(&root, &node)\<close> gives no third argument; the node
  has no children, so the result does not depend on one.
\<close>

definition sax_dispatch_old ::
    "string \<Rightarrow> 'u SAX_Callbacks_old \<Rightarrow> XMLNode \<Rightarrow> XMLNode \<Rightarrow> 'u
       \<Rightarrow> (bool \<times> bool \<times> XMLNode \<times> 'u) option" where
  "sax_dispatch_old junk sax node root user =
     (if node_tag root = None then
        (if node_tag_type node = TAG_FATHER then
           (case XMLNode_copy_old junk (Some root) (Some node) False of
              None \<Rightarrow> None
            | Some (ok, None) \<Rightarrow> Some (False, False, root, user)
            | Some (ok, Some root') \<Rightarrow>
                if \<not> ok then Some (False, False, root', user)
                else
                  (case invoke (map_option (\<lambda>g. g root') (start_doc_old sax)) user of
                     None \<Rightarrow> None
                   | Some (exit, user1) \<Rightarrow> Some (True, exit, root', user1)))
         else if node_tag_type node = TAG_PROLOG \<or> node_tag_type node = TAG_COMMENT then
           (case invoke (map_option (\<lambda>g. g node) (start_node_old sax)) user of
              None \<Rightarrow> None
            | Some (exit1, user1) \<Rightarrow>
                (case end_node_old sax of
                   None \<Rightarrow> Some (True, exit1, root, user1)
                 | Some g \<Rightarrow>
                     (case g node user1 of
                        None \<Rightarrow> None
                      | Some (r, user2) \<Rightarrow> Some (True, \<not> r, root, user2))))
         else Some (False, False, root, user))
      else
        (case invoke (map_option (\<lambda>g. g node) (start_node_old sax)) user of
           None \<Rightarrow> None
         | Some (exit1, user1) \<Rightarrow>
             if exit1 then Some (True, True, root, user1)
             else if node_tag_type node \<noteq> TAG_FATHER \<and> end_node_old sax \<noteq> None then
               (case invoke (map_option (\<lambda>g. g node) (end_node_old sax)) user1 of
                  None \<Rightarrow> None
                | Some (exit2, user2) \<Rightarrow> Some (True, exit2, root, user2))
             else Some (True, False, root, user1)))"

fun attribute_events ::
    "(string \<Rightarrow> string \<Rightarrow> 'u \<Rightarrow> (bool \<times> 'u) option) \<Rightarrow> XMLAttribute list \<Rightarrow> bool \<Rightarrow> 'u
       \<Rightarrow> (bool \<times> 'u) option" where
  \<comment> \<open>\<^verbatim>\<open>for (i = 0; !exit && i < node.n_attributes; i++) exit = !sax->new_attribute(...)\<close>\<close>
  "attribute_events g [] exit user = Some (exit, user)"
| "attribute_events g (a # as) exit user =
     (if exit then Some (exit, user)
      else
        (case g (a_name a) (a_value a) user of
           None \<Rightarrow> None
         | Some (r, user') \<Rightarrow> attribute_events g as (\<not> r) user'))"

definition sax_attributes_old ::
    "'u SAX_Callbacks_old \<Rightarrow> string list \<Rightarrow> XMLNode \<Rightarrow> XMLNode \<Rightarrow> bool \<Rightarrow> 'u
       \<Rightarrow> (bool \<times> bool \<times> string list \<times> XMLNode \<times> XMLNode \<times> 'u) option" where
  \<comment> \<open>The attribute callbacks and the test that ends an iteration.\<close>
  "sax_attributes_old sax f node root ret user =
     (case (case new_attribute_old sax of
              None \<Rightarrow> Some (False, user)
            | Some g \<Rightarrow> attribute_events g (node_attributes node) False user) of
        None \<Rightarrow> None
      | Some (exit, user') \<Rightarrow> Some (exit \<or> \<not> ret \<or> feof f, ret, f, node, root, user'))"

text \<open>
  One iteration of the loop of the older \<^verbatim>\<open>XMLDoc_parse_file_SAX\<close>: the result is
  whether the loop is left, \<^verbatim>\<open>ret\<close>, the rest of the file, the node, the root and the
  user data.
\<close>

definition sax_iteration_old ::
    "string \<Rightarrow> (string \<Rightarrow> string) \<Rightarrow> 'u SAX_Callbacks_old \<Rightarrow> string list \<Rightarrow> string \<Rightarrow> XMLNode
       \<Rightarrow> XMLNode \<Rightarrow> 'u
       \<Rightarrow> (bool \<times> bool \<times> string list \<times> XMLNode \<times> XMLNode \<times> 'u) option" where
  "sax_iteration_old junk h sax f line node0 root user =
     (let node = XMLNode_free_old node0 in
      if list_all isspace line then Some (True, True, f, node, root, user)
      else
        (case strchr line (CHR ''<'') of
           None \<Rightarrow> Some (True, False, f, node, root, user)
         | Some k \<Rightarrow>
             (case invoke (map_option (\<lambda>g. g (take k line)) (new_text_old sax)) user of
                None \<Rightarrow> None
              | Some (exit, user1) \<Rightarrow>
                  if exit then Some (True, True, f, node, root, user1)
                  else
                    (case parse_XML_1string_old h (drop k line) node of
                       None \<Rightarrow> None
                     | Some (tag_type, node1) \<Rightarrow>
                         if tag_type = 0 then Some (True, False, f, node1, root, user1)
                         else if tag_type = TAG_END \<and> end_node_old sax \<noteq> None then
                           (case invoke (map_option (\<lambda>g. g node1) (end_node_old sax)) user1 of
                              None \<Rightarrow> None
                            | Some (exit, user2) \<Rightarrow>
                                if exit then Some (True, True, f, node1, root, user2)
                                else sax_attributes_old sax f node1 root True user2)
                         else
                           (case read_partial_old h f line k tag_type node1 of
                              None \<Rightarrow> None
                            | Some (ret, tag_type', node2, f') \<Rightarrow>
                                if \<not> ret then Some (True, False, f', node2, root, user1)
                                else
                                  (case sax_dispatch_old junk sax node2 root user1 of
                                     None \<Rightarrow> None
                                   | Some (ret', exit, root', user2) \<Rightarrow>
                                       if exit then Some (True, ret', f', node2, root', user2)
                                       else sax_attributes_old sax f' node2 root' ret' user2))))))"

function XMLDoc_parse_loop_old ::
    "string \<Rightarrow> (string \<Rightarrow> string) \<Rightarrow> 'u SAX_Callbacks_old \<Rightarrow> string list \<Rightarrow> XMLNode \<Rightarrow> XMLNode
       \<Rightarrow> 'u \<Rightarrow> (bool \<times> XMLNode \<times> 'u) option" where
  "XMLDoc_parse_loop_old junk h sax f node root user =
     (case read_line_alloc f [] 0 of
        (n0, f1, line) \<Rightarrow>
          if n0 = 0 then Some (True, root, user)
          else
            (case sax_iteration_old junk h sax f1 line node root user of
               None \<Rightarrow> None
             | Some (stop, ret, f2, node', root', user') \<Rightarrow>
                 if stop then Some (ret, root', user')
                 else XMLDoc_parse_loop_old junk h sax f2 node' root' user'))"
  by pat_completeness auto
termination
proof (relation "measure (\<lambda>(junk, h, sax, f, node, root, user). length f)", goal_cases)
  case 1
  show ?case by simp
next
  case (2 junk h sax f node root user n0 r1 f1 line it stop r2 ret r3 f2 r4 node' r5 root' user')
  have rp: "read_partial_old h g l k t n = Some (a, b, m, g') \<Longrightarrow> length g' \<le> length g"
    for g l k t n a b m g'
  proof (induction g arbitrary: l t n)
    case Nil
    then show ?case by (auto split: if_splits)
  next
    case (Cons c cs)
    show ?case
    proof (cases "t = TAG_PARTIAL_COMMENT")
      case True
      with Cons.prems obtain t' n' where
        "read_partial_old h cs (l @ c) k t' n' = Some (a, b, m, g')"
        by (auto simp: read_line_alloc_def split: option.splits prod.splits)
      from Cons.IH[OF this] show ?thesis by simp
    next
      case False
      with Cons.prems show ?thesis by auto
    qed
  qed
  have rd: "read_line_alloc f [] 0 = (n0, f1, line)" using 2(1,2) by simp
  have it: "sax_iteration_old junk h sax f1 line node root user
              = Some (stop, ret, f2, node', root', user')"
    using 2 by simp
  have "f \<noteq> []" using rd 2(3) by (auto simp: read_line_alloc_def)
  moreover have "f1 = tl f" using rd by (auto simp: read_line_alloc_def split: list.splits)
  moreover have "length f2 \<le> length f1"
    using it rp unfolding sax_iteration_old_def sax_attributes_old_def Let_def
    by (auto split: if_splits option.splits prod.splits)
  ultimately show ?case by (cases f) auto
qed

text \<open>
  The older \<^verbatim>\<open>XMLDoc_parse_file_SAX\<close>. After the loop the end-of-document callback is
  called when it is registered, and its result is not read.
\<close>

definition XMLDoc_parse_file_SAX_old ::
    "string \<Rightarrow> (string \<Rightarrow> string) \<Rightarrow> (string \<Rightarrow> string list option) \<Rightarrow> string
       \<Rightarrow> 'u SAX_Callbacks_old \<Rightarrow> 'u \<Rightarrow> (bool \<times> 'u) option" where
  "XMLDoc_parse_file_SAX_old junk h fopen filename sax user =
     (if filename = [] then Some (False, user)
      else
        (case fopen filename of
           None \<Rightarrow> Some (False, user)
         | Some f \<Rightarrow>
             (case XMLDoc_parse_loop_old junk h sax f
                     (XMLNode_init_old (XMLNode None None [] [] TAG_NONE None True))
                     (XMLNode_init_old (XMLNode None None [] [] TAG_NONE None True)) user of
                None \<Rightarrow> None
              | Some (ret, root, user1) \<Rightarrow>
                  (case end_doc_old sax of
                     None \<Rightarrow> Some (ret, user1)
                   | Some g \<Rightarrow>
                       (case g root user1 of
                          None \<Rightarrow> None
                        | Some (r, user2) \<Rightarrow> Some (ret, user2))))))"

text \<open>
  A log of the callbacks raised: \<open>logged\<close> turns callbacks on \<open>'u\<close> into callbacks that
  also append their name and what they returned to a list.
\<close>

datatype callback = CB_start_node | CB_end_node | CB_new_text | CB_all_event
  | CB_start_doc | CB_end_doc | CB_new_attribute

definition log_call ::
    "callback \<Rightarrow> ('u \<Rightarrow> (bool \<times> 'u) option)
       \<Rightarrow> 'u \<times> (callback \<times> bool) list \<Rightarrow> (bool \<times> 'u \<times> (callback \<times> bool) list) option" where
  "log_call k g ul =
     (case g (fst ul) of
        None \<Rightarrow> None
      | Some (r, u') \<Rightarrow> Some (r, u', snd ul @ [(k, r)]))"

definition logged :: "'u SAX_Callbacks \<Rightarrow> ('u \<times> (callback \<times> bool) list) SAX_Callbacks" where
  "logged sax =
     \<lparr>start_node = map_option (\<lambda>g node. log_call CB_start_node (g node)) (start_node sax),
      end_node = map_option (\<lambda>g node. log_call CB_end_node (g node)) (end_node sax),
      new_text = map_option (\<lambda>g text. log_call CB_new_text (g text)) (new_text sax),
      all_event = map_option (\<lambda>g e node text. log_call CB_all_event (g e node text))
                    (all_event sax)\<rparr>"

definition logged_old ::
    "'u SAX_Callbacks_old \<Rightarrow> ('u \<times> (callback \<times> bool) list) SAX_Callbacks_old" where
  "logged_old sax =
     \<lparr>start_doc_old = map_option (\<lambda>g node. log_call CB_start_doc (g node)) (start_doc_old sax),
      end_doc_old = map_option (\<lambda>g node. log_call CB_end_doc (g node)) (end_doc_old sax),
      start_node_old = map_option (\<lambda>g node. log_call CB_start_node (g node)) (start_node_old sax),
      end_node_old = map_option (\<lambda>g node. log_call CB_end_node (g node)) (end_node_old sax),
      new_text_old = map_option (\<lambda>g text. log_call CB_new_text (g text)) (new_text_old sax),
      new_attribute_old = map_option (\<lambda>g n v. log_call CB_new_attribute (g n v))
                            (new_attribute_old sax)\<rparr>"

definition quiet :: "(callback \<times> bool) list \<Rightarrow> bool" where
  \<comment> \<open>Every callback of the log returned "go on".\<close>
  "quiet log = list_all snd log"

definition stopped :: "(callback \<times> bool) list \<Rightarrow> bool" where
  \<comment> \<open>The last callback of the log returned the stop signal, and none before it.\<close>
  "stopped log = (log \<noteq> [] \<and> list_all snd (butlast log) \<and> \<not> snd (last log))"

definition logged_cb ::
    "('u \<times> (callback \<times> bool) list \<Rightarrow> (bool \<times> 'u \<times> (callback \<times> bool) list) option) option
       \<Rightarrow> bool" where
  "logged_cb cb = (case cb of None \<Rightarrow> True | Some c \<Rightarrow> (\<exists>k g. c = log_call k g))"

section \<open>Example inputs\<close>

definition empty_node :: XMLNode where
  "empty_node = XMLNode None None [] [] TAG_NONE None True"

definition dup_node :: XMLNode where
  \<comment> \<open>Two active attributes of the same name, as \<^verbatim>\<open><n a="1" a="2">\<close> parses to.\<close>
  "dup_node = XMLNode (Some ''n'') None
     [\<lparr>a_name = ''a'', a_value = ''1'', a_active = True\<rparr>,
      \<lparr>a_name = ''a'', a_value = ''2'', a_active = True\<rparr>] [] TAG_FATHER None True"

definition inactive_node :: XMLNode where
  "inactive_node = XMLNode (Some ''n'') None
     [\<lparr>a_name = ''a'', a_value = ''1'', a_active = False\<rparr>] [] TAG_FATHER None True"

definition switched_off_node :: XMLNode where
  \<comment> \<open>An element with content whose \<^verbatim>\<open>active\<close> member is false.\<close>
  "switched_off_node = XMLNode (Some ''n'') (Some ''t'')
     [\<lparr>a_name = ''a'', a_value = ''1'', a_active = True\<rparr>] [] TAG_FATHER None False"

definition text_node :: XMLNode where
  "text_node = XMLNode (Some ''b'') (Some ''text'')
     [\<lparr>a_name = ''x'', a_value = ''1'', a_active = True\<rparr>] [] TAG_FATHER None True"

definition parent_node :: XMLNode where
  "parent_node = XMLNode (Some ''root'') None [] [text_node] TAG_FATHER None True"

definition unclosed_quote_attr :: string where
  \<comment> \<open>\<^verbatim>\<open>x="1>\<close>\<close>
  "unclosed_quote_attr = ''x='' @ [dquote] @ ''1>''"

definition unclosed_quote_tag :: string where
  \<comment> \<open>\<^verbatim>\<open><a x="1>\<close>\<close>
  "unclosed_quote_tag = ''<a x='' @ [dquote] @ ''1>''"

definition empty_doc :: XMLDoc where
  "empty_doc = \<lparr>doc_nodes = [], doc_i_root = -1, doc_init_value = XMLDOC_INIT_DONE\<rparr>"

definition root_a_doc :: XMLDoc where
  \<comment> \<open>The tree of \<^verbatim>\<open><root><a>\<close>.\<close>
  "root_a_doc =
     \<lparr>doc_nodes = [XMLNode (Some ''root'') None []
                     [XMLNode (Some ''a'') None [] [] TAG_FATHER (Some [0]) True]
                     TAG_FATHER None True],
      doc_i_root = 0, doc_init_value = XMLDOC_INIT_DONE\<rparr>"

definition root_text_doc :: "string option \<Rightarrow> XMLDoc" where
  \<comment> \<open>A document whose root element carries the given text.\<close>
  "root_text_doc t =
     \<lparr>doc_nodes = [XMLNode (Some ''root'') t [] [] TAG_FATHER None True],
      doc_i_root = 0, doc_init_value = XMLDOC_INIT_DONE\<rparr>"

definition end_root :: XMLNode where
  \<comment> \<open>The node of the event for \<^verbatim>\<open></root>\<close>.\<close>
  "end_root = XMLNode (Some ''root'') None [] [] TAG_END None True"

definition stop_at_start_old :: "unit SAX_Callbacks_old" where
  \<comment> \<open>Every callback is registered; the start callback returns the stop signal, the
      others go on.\<close>
  "stop_at_start_old =
     \<lparr>start_doc_old = Some (\<lambda>node u. Some (True, u)),
      end_doc_old = Some (\<lambda>node u. Some (True, u)),
      start_node_old = Some (\<lambda>node u. Some (False, u)),
      end_node_old = Some (\<lambda>node u. Some (True, u)),
      new_text_old = Some (\<lambda>text u. Some (True, u)),
      new_attribute_old = Some (\<lambda>n v u. Some (True, u))\<rparr>"

definition stop_at_start :: "unit SAX_Callbacks" where
  "stop_at_start =
     \<lparr>start_node = Some (\<lambda>node u. Some (False, u)),
      end_node = Some (\<lambda>node u. Some (True, u)),
      new_text = Some (\<lambda>text u. Some (True, u)),
      all_event = Some (\<lambda>e node text u. Some (True, u))\<rparr>"

section \<open>Properties\<close>

declare XML_parse_attributes.simps [simp del]
declare XMLDoc_parse_loop.simps [simp del]
declare XMLDoc_parse_loop_old.simps [simp del]

lemmas TAG_defs = TAG_ERROR_def TAG_NONE_def TAG_PARTIAL_def TAG_FATHER_def TAG_SELF_def
  TAG_INSTR_def TAG_COMMENT_def TAG_CDATA_def TAG_DOCTYPE_def TAG_END_def TAG_USER_def

subsection \<open>Searching, removing and setting attributes\<close>

lemma search_from_none:
  "0 \<le> i \<Longrightarrow> (search_from as nm i = -1) = (\<not> list_ex (\<lambda>a. a_active a \<and> a_name a = nm) as)"
  by (induction as arbitrary: i) auto

lemma search_from_found:
  "0 \<le> i \<Longrightarrow> search_from as nm i = j \<Longrightarrow> j \<noteq> -1 \<Longrightarrow>
     i \<le> j \<and> nat (j - i) < length as \<and> a_active (as ! nat (j - i)) \<and> a_name (as ! nat (j - i)) = nm
     \<and> (\<forall>k < nat (j - i). \<not> (a_active (as ! k) \<and> a_name (as ! k) = nm))"
proof (induction as arbitrary: i)
  case Nil
  then show ?case by simp
next
  case (Cons a as)
  show ?case
  proof (cases "a_active a \<and> a_name a = nm")
    case True
    with Cons.prems show ?thesis by simp
  next
    case False
    with Cons.prems have s: "search_from as nm (i + 1) = j" by auto
    from Cons.IH[of "i + 1"] s Cons.prems
    have ih: "i + 1 \<le> j \<and> nat (j - (i + 1)) < length as \<and> a_active (as ! nat (j - (i + 1)))
        \<and> a_name (as ! nat (j - (i + 1))) = nm
        \<and> (\<forall>k < nat (j - (i + 1)). \<not> (a_active (as ! k) \<and> a_name (as ! k) = nm))" by simp
    have e: "nat (j - i) = Suc (nat (j - (i + 1)))" using ih by linarith
    show ?thesis using ih False unfolding e
      by (auto simp: less_Suc_eq_0_disj)
  qed
qed

text \<open>
  C6, as the claim states it, fails: attribute names need not be unique, and after the
  first of two active attributes named \<open>a\<close> is removed, the search for \<open>a\<close> finds the
  second one.
\<close>

theorem remove_attribute_duplicate_name_found:
  "a_name (node_attributes dup_node ! 0) = ''a''
   \<and> XMLNode_remove_attribute (Some dup_node) 0
       = (1, Some (set_attributes [\<lparr>a_name = ''a'', a_value = ''2'', a_active = True\<rparr>] dup_node))
   \<and> XMLNode_search_attribute (snd (XMLNode_remove_attribute (Some dup_node) 0)) (Some ''a'') 0 = 0"
  by (simp add: dup_node_def XMLNode_remove_attribute_def XMLNode_search_attribute_def
        set_attributes_def)

text \<open>
  C6, amended: for any node and any valid attribute index, \<^verbatim>\<open>XMLNode_remove_attribute\<close>
  of the newer generation returns the count decreased by exactly one and leaves the other
  attributes in their order; the search for the removed attribute's name then returns the
  not-found sentinel \<open>-1\<close> exactly when the name is empty or no remaining active attribute
  carries it.
\<close>

theorem remove_attribute_then_search:
  assumes "0 \<le> i" and "i < int (length (node_attributes n))"
  shows "\<exists>n'. XMLNode_remove_attribute (Some n) i = (int (length (node_attributes n)) - 1, Some n')
      \<and> node_attributes n' = take (nat i) (node_attributes n) @ drop (nat i + 1) (node_attributes n)
      \<and> (XMLNode_search_attribute (Some n') (Some (a_name (node_attributes n ! nat i))) 0 = -1
           \<longleftrightarrow> a_name (node_attributes n ! nat i) = []
               \<or> \<not> list_ex (\<lambda>a. a_active a \<and> a_name a = a_name (node_attributes n ! nat i))
                      (node_attributes n'))"
proof -
  let ?as = "take (nat i) (node_attributes n) @ drop (nat i + 1) (node_attributes n)"
  let ?nm = "a_name (node_attributes n ! nat i)"
  have len: "int (length ?as) = int (length (node_attributes n)) - 1"
    using assms by auto
  have r: "XMLNode_remove_attribute (Some n) i
             = (int (length (node_attributes n)) - 1, Some (set_attributes ?as n))"
    using assms len unfolding XMLNode_remove_attribute_def Let_def by simp
  have a: "node_attributes (set_attributes ?as n) = ?as"
    by (simp add: set_attributes_def)
  have s: "(XMLNode_search_attribute (Some (set_attributes ?as n)) (Some ?nm) 0 = -1)
           \<longleftrightarrow> ?nm = [] \<or> \<not> list_ex (\<lambda>a. a_active a \<and> a_name a = ?nm) ?as"
    using search_from_none[of 0 ?as ?nm]
    by (simp add: XMLNode_search_attribute_def set_attributes_def)
  show ?thesis
  proof (rule exI[of _ "set_attributes ?as n"], intro conjI)
    show "XMLNode_remove_attribute (Some n) i
            = (int (length (node_attributes n)) - 1, Some (set_attributes ?as n))" by (rule r)
    show "node_attributes (set_attributes ?as n) = ?as" by (rule a)
    show "(XMLNode_search_attribute (Some (set_attributes ?as n)) (Some ?nm) 0 = -1)
           \<longleftrightarrow> ?nm = [] \<or> \<not> list_ex (\<lambda>a. a_active a \<and> a_name a = ?nm)
                (node_attributes (set_attributes ?as n))"
      using s by (simp only: a)
  qed
qed

theorem remove_attribute_then_search_witness:
  "(0::int) \<le> 1 \<and> (1::int) < int (length (node_attributes dup_node))
   \<and> (\<exists>n'. XMLNode_remove_attribute (Some dup_node) 1 = (1, Some n')
      \<and> node_attributes n' = [\<lparr>a_name = ''a'', a_value = ''1'', a_active = True\<rparr>]
      \<and> XMLNode_search_attribute (Some n') (Some ''a'') 0 \<noteq> -1)"
  using remove_attribute_then_search[of 1 dup_node]
  by (simp add: dup_node_def XMLNode_remove_attribute_def XMLNode_search_attribute_def
        set_attributes_def)

lemma remove_attribute_old_first_index:
  "XMLNode_remove_attribute_old (Some n) 0 = (-1, Some n)
   \<and> (0 < i \<longrightarrow> XMLNode_remove_attribute_old (Some n) i = XMLNode_remove_attribute (Some n) i)"
  by (auto simp: XMLNode_remove_attribute_old_def XMLNode_remove_attribute_def)

text \<open>
  C4, as the claim states it, fails: an inactive attribute of the name is not found by
  the search, so it is neither updated nor reactivated, and a second entry of the same
  name is appended (whatever the unassigned \<^verbatim>\<open>active\<close> member of the new entry holds).
\<close>

theorem set_attribute_inactive_entry_appends:
  "XMLNode_set_attribute False (Some inactive_node) (Some ''a'') ''2''
     = (2, Some (set_attributes
          [\<lparr>a_name = ''a'', a_value = ''1'', a_active = False\<rparr>,
           \<lparr>a_name = ''a'', a_value = ''2'', a_active = False\<rparr>] inactive_node))
   \<and> XMLNode_set_attribute True (Some inactive_node) (Some ''a'') ''2''
     = (2, Some (set_attributes
          [\<lparr>a_name = ''a'', a_value = ''1'', a_active = False\<rparr>,
           \<lparr>a_name = ''a'', a_value = ''2'', a_active = True\<rparr>] inactive_node))"
  by (simp add: inactive_node_def XMLNode_set_attribute_def XMLNode_search_attribute_def
        set_attributes_def)

text \<open>
  C4, amended: for every node, non-empty attribute name and value,
  \<^verbatim>\<open>XMLNode_set_attribute\<close> updates in place the value of the first active attribute of
  that name when there is one, leaving the count unchanged; otherwise (no entry of that
  name, or inactive ones only) it appends a new entry with the name and the value and
  leaves every existing entry as it was.
\<close>

theorem set_attribute_active_or_append:
  assumes "nm \<noteq> []"
  shows "if list_ex (\<lambda>a. a_active a \<and> a_name a = nm) (node_attributes n)
         then \<exists>j < length (node_attributes n).
                a_active (node_attributes n ! j) \<and> a_name (node_attributes n ! j) = nm
              \<and> (\<forall>k < j. \<not> (a_active (node_attributes n ! k) \<and> a_name (node_attributes n ! k) = nm))
              \<and> XMLNode_set_attribute junk (Some n) (Some nm) v
                  = (int (length (node_attributes n)),
                     Some (set_attributes
                       ((node_attributes n)[j := (node_attributes n ! j)\<lparr>a_value := v\<rparr>]) n))
         else XMLNode_set_attribute junk (Some n) (Some nm) v
                  = (int (length (node_attributes n)) + 1,
                     Some (set_attributes
                       (node_attributes n @ [\<lparr>a_name = nm, a_value = v, a_active = junk\<rparr>]) n))"
proof (cases "list_ex (\<lambda>a. a_active a \<and> a_name a = nm) (node_attributes n)")
  case True
  let ?as = "node_attributes n"
  let ?j = "search_from ?as nm 0"
  have sj: "XMLNode_search_attribute (Some n) (Some nm) 0 = ?j"
    using assms by (simp add: XMLNode_search_attribute_def)
  have ne: "?j \<noteq> -1" using search_from_none[of 0 ?as nm] True by simp
  from search_from_found[OF _ refl ne]
  have f: "0 \<le> ?j \<and> nat ?j < length ?as \<and> a_active (?as ! nat ?j) \<and> a_name (?as ! nat ?j) = nm
      \<and> (\<forall>k < nat ?j. \<not> (a_active (?as ! k) \<and> a_name (?as ! k) = nm))" by simp
  have "XMLNode_set_attribute junk (Some n) (Some nm) v
          = (int (length ?as), Some (set_attributes (?as[nat ?j := (?as ! nat ?j)\<lparr>a_value := v\<rparr>]) n))"
    using assms f by (simp add: XMLNode_set_attribute_def sj Let_def)
  with f True show ?thesis by auto
next
  case False
  have "XMLNode_search_attribute (Some n) (Some nm) 0 = -1"
    using assms False search_from_none[of 0 "node_attributes n" nm]
    by (simp add: XMLNode_search_attribute_def)
  then show ?thesis using assms False
    unfolding XMLNode_set_attribute_def Let_def by simp
qed

theorem set_attribute_active_or_append_witness:
  "''a'' \<noteq> [] \<and> ''b'' \<noteq> []
   \<and> XMLNode_set_attribute True (Some dup_node) (Some ''a'') ''9''
     = (2, Some (set_attributes
          [\<lparr>a_name = ''a'', a_value = ''9'', a_active = True\<rparr>,
           \<lparr>a_name = ''a'', a_value = ''2'', a_active = True\<rparr>] dup_node))
   \<and> XMLNode_set_attribute True (Some dup_node) (Some ''b'') ''9''
     = (3, Some (set_attributes
          [\<lparr>a_name = ''a'', a_value = ''1'', a_active = True\<rparr>,
           \<lparr>a_name = ''a'', a_value = ''2'', a_active = True\<rparr>,
           \<lparr>a_name = ''b'', a_value = ''9'', a_active = True\<rparr>] dup_node))"
  using set_attribute_active_or_append[of "''a''" dup_node True "''9''"]
        set_attribute_active_or_append[of "''b''" dup_node True "''9''"]
  by (simp add: dup_node_def XMLNode_set_attribute_def XMLNode_search_attribute_def
        set_attributes_def)

subsection \<open>Classifying tags\<close>

text \<open>
  C5: the comment text cut at its first \<^verbatim>\<open>>\<close> classifies as partial (a kind other than
  the \<open>0\<close> of a malformed tag), and the complete text classifies as one comment node with
  the payload \<^verbatim>\<open> a > b \<close>; in both generations, whatever the registry of user tags, the
  codecs and the node written to.
\<close>

theorem comment_with_gt_partial_then_comment:
  "XML_parse_1string user_tags su h ''<!-- a >'' node = Some (TAG_PARTIAL, node)
   \<and> TAG_PARTIAL \<noteq> 0
   \<and> XML_parse_1string user_tags su h ''<!-- a > b -->'' node
       = Some (TAG_COMMENT, set_tag_type TAG_COMMENT (set_tag (Some '' a > b '') node))
   \<and> parse_XML_1string_old h ''<!-- a >'' node = Some (TAG_PARTIAL_COMMENT, node)
   \<and> TAG_PARTIAL_COMMENT \<noteq> 0
   \<and> parse_XML_1string_old h ''<!-- a > b -->'' node
       = Some (TAG_COMMENT, set_tag_type TAG_COMMENT (set_tag (Some '' a > b '') node))"
  by (simp add: XML_parse_1string_def parse_XML_1string_old_def spec_tags_def
        parse_special_tag_def strncmp_eq_def TAG_defs TAG_PARTIAL_COMMENT_def)

theorem comment_with_gt_partial_then_comment_witness:
  "XML_parse_1string [] id id ''<!-- a >'' empty_node = Some (TAG_PARTIAL, empty_node)
   \<and> XML_parse_1string [] id id ''<!-- a > b -->'' empty_node
       = Some (TAG_COMMENT, XMLNode (Some '' a > b '') None [] [] TAG_COMMENT None True)
   \<and> parse_XML_1string_old id ''<!-- a >'' empty_node = Some (TAG_PARTIAL_COMMENT, empty_node)
   \<and> parse_XML_1string_old id ''<!-- a > b -->'' empty_node
       = Some (TAG_COMMENT, XMLNode (Some '' a > b '') None [] [] TAG_COMMENT None True)"
  using comment_with_gt_partial_then_comment[of "[]" id id empty_node]
  by (simp add: empty_node_def set_tag_def set_tag_type_def)

lemma parse_special_tags_skip:
  "list_all (\<lambda>t. \<not> strncmp_eq str (t_start t) (t_len_start t)) ts
     \<Longrightarrow> parse_special_tags str len (ts @ us) node = parse_special_tags str len us node"
  by (induction ts) (auto simp: parse_special_tag_def TAG_defs)

text \<open>
  C3, as the claim states it, fails: the delimiters \<^verbatim>\<open>{{\<close> and \<^verbatim>\<open>}}\<close> are rejected by
  the registration (a start delimiter must begin with \<^verbatim>\<open><\<close>), and the text \<^verbatim>\<open>{{x}}\<close>
  is malformed for the classifier, which wants \<^verbatim>\<open><\<close> first and \<^verbatim>\<open>>\<close> last, even with
  such a pair in the registry.
\<close>

theorem braces_without_angle_brackets_rejected:
  "XML_register_user_tag [] TAG_USER (Some ''{{'') (Some ''}}'') = Some (False, [])
   \<and> XML_parse_1string [] id id ''{{x}}'' empty_node = Some (0, empty_node)
   \<and> XML_parse_1string
        [\<lparr>t_type = TAG_USER, t_start = ''{{'', t_len_start = 2, t_end = ''}}'', t_len_end = 2\<rparr>]
        id id ''{{x}}'' empty_node = Some (0, empty_node)"
  by (simp add: XML_register_user_tag_def XML_parse_1string_def TAG_defs)

text \<open>
  C3, amended: after a call to \<^verbatim>\<open>XML_register_user_tag\<close> with a kind at or above the
  user threshold, the start delimiter \<^verbatim>\<open><{{\<close> and the end delimiter \<^verbatim>\<open>}}>\<close>, in a
  registry none of whose earlier entries has a start delimiter that begins the text,
  the registration succeeds and classifying \<^verbatim>\<open><{{x}}>\<close> returns that kind with the
  payload \<open>x\<close>.
\<close>

theorem registered_user_tag_classified:
  assumes "TAG_USER \<le> kind"
      and "list_all (\<lambda>t. \<not> strncmp_eq ''<{{x}}>'' (t_start t) (t_len_start t)) user_tags"
  shows "\<exists>user_tags'.
           XML_register_user_tag user_tags kind (Some ''<{{'') (Some ''}}>'') = Some (True, user_tags')
         \<and> XML_parse_1string user_tags' su h ''<{{x}}>'' node
             = Some (kind, set_tag_type kind (set_tag (Some ''x'') node))"
proof -
  let ?t = "\<lparr>t_type = kind, t_start = ''<{{'', t_len_start = 3, t_end = ''}}>'', t_len_end = 3\<rparr>"
  have r: "XML_register_user_tag user_tags kind (Some ''<{{'') (Some ''}}>'')
             = Some (True, user_tags @ [?t])"
    using assms(1) by (simp add: XML_register_user_tag_def)
  have s: "parse_special_tags ''<{{x}}>'' (length ''<{{x}}>'') spec_tags node = Some None"
    by (simp add: spec_tags_def parse_special_tag_def strncmp_eq_def TAG_defs)
  have u: "parse_special_tags ''<{{x}}>'' (length ''<{{x}}>'') (user_tags @ [?t]) node
             = Some (Some (kind, set_tag_type kind (set_tag (Some ''x'') node)))"
    using assms(1) unfolding parse_special_tags_skip[OF assms(2)]
    by (simp add: parse_special_tag_def strncmp_eq_def TAG_defs)
  have p: "XML_parse_1string (user_tags @ [?t]) su h ''<{{x}}>'' node
             = Some (kind, set_tag_type kind (set_tag (Some ''x'') node))"
    unfolding XML_parse_1string_def Let_def s u by simp
  show ?thesis using r p by blast
qed

theorem registered_user_tag_classified_witness:
  "TAG_USER \<le> 100
   \<and> list_all (\<lambda>t. \<not> strncmp_eq ''<{{x}}>'' (t_start t) (t_len_start t)) []
   \<and> XML_register_user_tag [] 100 (Some ''<{{'') (Some ''}}>'')
     = Some (True, [\<lparr>t_type = 100, t_start = ''<{{'', t_len_start = 3, t_end = ''}}>'',
                      t_len_end = 3\<rparr>])
   \<and> XML_parse_1string
       [\<lparr>t_type = 100, t_start = ''<{{'', t_len_start = 3, t_end = ''}}>'', t_len_end = 3\<rparr>]
       id id ''<{{x}}>'' empty_node
     = Some (100, XMLNode (Some ''x'') None [] [] 100 None True)"
  using registered_user_tag_classified[of 100 "[]" id id empty_node]
  by (simp add: TAG_defs XML_register_user_tag_def empty_node_def set_tag_def set_tag_type_def
        XML_parse_1string_def spec_tags_def parse_special_tag_def strncmp_eq_def)

text \<open>
  An attribute value that opens with a double quote and does not close makes the scan for
  the closing quote end past the terminator; the attribute loop then resumes at an index
  beyond the string and returns \<open>0\<close>: whenever the decoder reports \<open>2\<close> for the next
  attribute of a tag, \<^verbatim>\<open>XML_parse_1string\<close> fails on the tag.
\<close>

lemma quoted_end_cases:
  "cs = drop nn str \<Longrightarrow> nn \<le> length str \<Longrightarrow>
     (quoted_end cs nn < length str \<and> str ! quoted_end cs nn = dquote)
     \<or> length str \<le> quoted_end cs nn"
proof (induction cs nn rule: quoted_end.induct)
  case (1 nn)
  then show ?case by simp
next
  case (2 c cs nn)
  from "2.prems" have lt: "nn < length str"
    by (cases "nn < length str") auto
  from "2.prems" lt have c: "str ! nn = c" and cs: "cs = drop (Suc nn) str"
    by (simp_all add: Cons_nth_drop_Suc[symmetric])
  show ?case
  proof (cases "c = dquote")
    case True
    with lt c show ?thesis by simp
  next
    case nq: False
    show ?thesis
    proof (cases "c = bslash")
      case True
      show ?thesis
      proof (cases "Suc nn < length str")
        case True
        have "drop 1 cs = drop (nn + 2) str" using cs by simp
        from "2.IH"(1)[OF nq \<open>c = bslash\<close> this] True nq \<open>c = bslash\<close>
        show ?thesis by simp
      next
        case False
        with lt cs have "cs = []" by simp
        with nq \<open>c = bslash\<close> lt False show ?thesis by simp
      qed
    next
      case False
      have "cs = drop (nn + 1) str" using cs by simp
      from "2.IH"(2)[OF nq False this] lt nq False show ?thesis by simp
    qed
  qed
qed

lemma unclosed_quote_runs_past_end:
  assumes "p < length str" and "str ! p = dquote" and "n1 \<le> p"
      and "last (take (attr_end str p - n1) (drop n1 str)) \<noteq> dquote"
  shows "length str < attr_end str p"
proof -
  let ?q = "quoted_end (drop (Suc p) str) (Suc p)"
  have ae: "attr_end str p = Suc ?q" using assms(1,2) by (simp add: attr_end_def)
  have "nn \<le> quoted_end cs nn" for cs nn
    by (induction cs nn rule: quoted_end.induct) (auto split: if_splits)
  then have ge: "Suc p \<le> ?q" .
  show ?thesis
  proof (rule ccontr)
    assume "\<not> length str < attr_end str p"
    then have le: "?q < length str" using ae by simp
    from quoted_end_cases[OF refl, of "Suc p" str] assms(1) le
    have dq: "str ! ?q = dquote" by auto
    let ?F = "take (Suc ?q - n1) (drop n1 str)"
    have len: "length ?F = Suc ?q - n1" using le by simp
    have pos: "0 < Suc ?q - n1" using assms(3) ge by simp
    have "?F \<noteq> []" using len pos by auto
    then have "last ?F = ?F ! (length ?F - 1)" by (rule last_conv_nth)
    also have "\<dots> = ?F ! (?q - n1)" using len assms(3) ge by simp
    also have "\<dots> = drop n1 str ! (?q - n1)" using assms(3) ge by simp
    also have "\<dots> = str ! ?q" using le assms(3) ge by simp
    finally show False using assms(4) dq ae by simp
  qed
qed


lemma parse_attribute_mismatch_last:
  "XML_parse_attribute su h frag = Some (2, x) \<Longrightarrow> last frag \<noteq> dquote"
  by (auto simp: XML_parse_attribute_def Let_def split: if_splits)

lemma quote_mismatch_always_aborts:
  assumes "n < length str"
      and n1: "n1 = n + length (takeWhile isspace (drop n str))"
      and gt: "\<not> (n1 < length str \<and> str ! n1 = CHR ''>'')"
      and sl: "drop n1 str \<noteq> ''/>''"
      and eq: "strchr (drop n1 str) (CHR ''='') = Some k"
      and p: "p = attr_value_start str (n1 + k)"
      and q: "p < length str" "str ! p = dquote"
      and d: "XML_parse_attribute su h (take (attr_end str p - n1) (drop n1 str)) = Some (2, Some a)"
  shows "XML_parse_attributes su h str n node
           = Some (0, XMLNode_free (set_attributes (node_attributes node @ [a]) node))"
proof -
  have "n1 \<le> p" unfolding p by (simp add: attr_value_start_def)
  from unclosed_quote_runs_past_end[OF q this parse_attribute_mismatch_last[OF d]]
  have past: "length str < attr_end str p" .
  have rec: "XML_parse_attributes su h str (attr_end str p) m = Some (0, XMLNode_free m)" for m
    using past by (subst XML_parse_attributes.simps) simp
  show ?thesis
    using assms(1) gt sl eq d rec
    by (subst XML_parse_attributes.simps) (auto simp: Let_def n1[symmetric] p[symmetric])
qed

text \<open>
  C9, at the tag \<^verbatim>\<open><a x="1>\<close>: the decoder returns \<open>2\<close> with the attribute \<open>x\<close> and the
  value \<open>1\<close> for the fragment \<^verbatim>\<open>x="1>\<close>, and the enclosing \<^verbatim>\<open>XML_parse_1string\<close> returns
  \<open>0\<close> with the node freed: the scan for the closing quote has run to the end of the tag,
  so the attribute loop ends without meeting \<^verbatim>\<open>>\<close>.
\<close>

theorem quote_mismatch_aborts_tag_parse:
  "XML_parse_attribute su h unclosed_quote_attr
     = Some (2, Some \<lparr>a_name = ''x'', a_value = h (su ''1''), a_active = True\<rparr>)
   \<and> XML_parse_1string [] su h unclosed_quote_tag node = Some (0, XMLNode_free node)"
  by code_simp

theorem quote_mismatch_aborts_tag_parse_witness:
  "XML_parse_attribute id id unclosed_quote_attr
     = Some (2, Some \<lparr>a_name = ''x'', a_value = ''1'', a_active = True\<rparr>)
   \<and> XML_parse_1string [] id id unclosed_quote_tag text_node = Some (0, empty_node)"
  using quote_mismatch_aborts_tag_parse[of id id text_node]
  by (simp add: XMLNode_free_def text_node_def empty_node_def)

subsection \<open>Copying a node\<close>

text \<open>
  C10, as the claim states it, fails: \<^verbatim>\<open>XMLNode_copy\<close> from \<^verbatim>\<open>NULL\<close> frees the
  destination and does not initialise it. At an element that is not active, with either
  value of the flag, the newer generation leaves \<^verbatim>\<open>active\<close> false, where
  \<^verbatim>\<open>XMLNode_init\<close> sets it; the older generation leaves the kind \<^verbatim>\<open>TAG_FATHER\<close>, where
  its \<^verbatim>\<open>XMLNode_init\<close> sets \<^verbatim>\<open>TAG_NONE\<close>. Neither result is the freshly initialised
  node.
\<close>

theorem copy_from_null_not_initialised:
  "XMLNode_copy (Some switched_off_node) None False
     = Some (True, Some (XMLNode None None [] [] TAG_NONE None False))
   \<and> XMLNode_copy (Some switched_off_node) None True
     = Some (True, Some (XMLNode None None [] [] TAG_NONE None False))
   \<and> XMLNode_init switched_off_node = XMLNode None None [] [] TAG_NONE None True
   \<and> XMLNode_copy (Some switched_off_node) None False
     \<noteq> Some (True, Some (XMLNode_init switched_off_node))
   \<and> XMLNode_copy (Some switched_off_node) None True
     \<noteq> Some (True, Some (XMLNode_init switched_off_node))
   \<and> XMLNode_copy_old [] (Some switched_off_node) None False
     = Some (True, Some (XMLNode None None [] [] TAG_FATHER None False))
   \<and> XMLNode_copy_old [] (Some switched_off_node) None True
     = Some (True, Some (XMLNode None None [] [] TAG_FATHER None False))
   \<and> XMLNode_init_old switched_off_node = XMLNode None None [] [] TAG_NONE None False
   \<and> XMLNode_copy_old [] (Some switched_off_node) None False
     \<noteq> Some (True, Some (XMLNode_init_old switched_off_node))
   \<and> XMLNode_copy_old [] (Some switched_off_node) None True
     \<noteq> Some (True, Some (XMLNode_init_old switched_off_node))"
  by (simp add: switched_off_node_def XMLNode_copy_def XMLNode_free_def XMLNode_init_def
        XMLNode_copy_old_def XMLNode_free_old_def XMLNode_init_old_def TAG_defs)

text \<open>
  C10, amended: for every destination node and either value of the flag,
  \<^verbatim>\<open>XMLNode_copy\<close> from \<^verbatim>\<open>NULL\<close> returns success and leaves the destination without
  tag, text, attributes and children, with \<^verbatim>\<open>father\<close> and \<^verbatim>\<open>active\<close> as they were. The
  newer generation sets the kind to \<^verbatim>\<open>TAG_NONE\<close>, so its result is the node
  \<^verbatim>\<open>XMLNode_init\<close> gives exactly when the destination was active. The older generation
  leaves the kind as it was, so its result is the node its \<^verbatim>\<open>XMLNode_init\<close> gives
  exactly when the kind of the destination was \<^verbatim>\<open>TAG_NONE\<close>. Nothing is stated of the
  storage released.
\<close>

theorem copy_from_null_resets:
  "XMLNode_copy (Some dst) None copy_children
     = Some (True, Some (XMLNode None None [] [] TAG_NONE (node_father dst) (node_active dst)))
   \<and> ((XMLNode_copy (Some dst) None copy_children = Some (True, Some (XMLNode_init dst)))
        = node_active dst)
   \<and> XMLNode_copy_old junk (Some dst) None copy_children
     = Some (True, Some (XMLNode None None [] [] (node_tag_type dst) (node_father dst)
                           (node_active dst)))
   \<and> ((XMLNode_copy_old junk (Some dst) None copy_children
          = Some (True, Some (XMLNode_init_old dst)))
        = (node_tag_type dst = TAG_NONE))"
  by (auto simp: XMLNode_copy_def XMLNode_free_def XMLNode_init_def XMLNode_copy_old_def
        XMLNode_free_old_def XMLNode_init_old_def)

lemma copy_never_copies_text:
  "XMLNode_copy (Some dst) (Some src) copy_children = Some (ok, Some d) \<Longrightarrow> node_text d = None"
  by (auto simp: XMLNode_copy_def XMLNode_free_def Let_def set_tag_def set_text_def
        set_attributes_def split: option.splits if_splits)

text \<open>
  C2, at a source with the text \<open>text\<close>: the copy has the tag and the attribute of the
  source and no text; and the copy with children of a node that has a child is undefined
  (it copies into a pointer that was never assigned). In the older generation the copy
  has neither the text nor the attribute, and a tag whose characters were never written.
\<close>

theorem copy_drops_text:
  "node_text text_node = Some ''text''
   \<and> XMLNode_copy (Some empty_node) (Some text_node) False
       = Some (True, Some (XMLNode (Some ''b'') None
                  [\<lparr>a_name = ''x'', a_value = ''1'', a_active = True\<rparr>] [] TAG_FATHER None True))
   \<and> XMLNode_copy (Some empty_node) (Some parent_node) True = None
   \<and> XMLNode_copy_old junk (Some empty_node) (Some text_node) False
       = Some (True, Some (XMLNode (Some junk) None [] [] TAG_NONE None True))"
  by (simp add: XMLNode_copy_def XMLNode_free_def text_node_def parent_node_def empty_node_def
        set_tag_def set_attributes_def XMLNode_copy_old_def XMLNode_free_old_def)

subsection \<open>The tree builder\<close>

lemma node_end_ignores_name:
  "dom_current dm = Some cur \<Longrightarrow> node_at (doc_nodes (dom_doc dm)) cur = Some c
     \<Longrightarrow> DOMXMLDoc_node_end node dm = Some (True, dm\<lparr>dom_current := node_father c\<rparr>)"
  by (simp add: DOMXMLDoc_node_end_def)

text \<open>
  C1, at \<^verbatim>\<open><root><a></root>\<close>: with the element \<open>a\<close> open, the end event for \<open>root\<close>
  succeeds and moves the cursor to the father of \<open>a\<close>; the parse of the three tags returns
  success with the tree in which \<open>a\<close> is a child of \<open>root\<close>.
\<close>

theorem mismatched_end_tag_accepted:
  "node_tag end_root = Some ''root''
   \<and> map_option node_tag (node_at (doc_nodes root_a_doc) [0, 0]) = Some (Some ''a'')
   \<and> DOMXMLDoc_node_end end_root \<lparr>dom_doc = root_a_doc, dom_current = Some [0, 0]\<rparr>
       = Some (True, \<lparr>dom_doc = root_a_doc, dom_current = Some [0]\<rparr>)
   \<and> XMLDoc_parse_file_DOM [] su h (\<lambda>name. Some [''<root>'', ''<a>'', ''</root>''])
         ''doc.xml'' empty_doc
       = Some (True, root_a_doc)"
  by code_simp

text \<open>
  Whatever text the open element has, a text event that passes the callback's test for
  white space leaves the element with the text of the event.
\<close>

lemma node_at_update_at:
  "node_at (update_at g p ns) p = map_option g (node_at ns p)"
  by (induction g p ns rule: update_at.induct) (auto simp: set_children_def)

lemma text_event_overwrites:
  assumes "dom_current dm = Some cur"
      and "node_at (doc_nodes (dom_doc dm)) cur = Some c"
      and "Suc (length (takeWhile isspace text)) < length text"
  shows "\<exists>dm'. DOMXMLDoc_node_text text dm = Some (True, dm')
           \<and> dom_current dm' = Some cur
           \<and> map_option node_text (node_at (doc_nodes (dom_doc dm')) cur) = Some (Some text)"
  using assms
  by (simp add: DOMXMLDoc_node_text_def Let_def node_at_update_at set_text_def)

text \<open>
  C7: a text event replaces the text of the open element (\<open>foo\<close> then \<open>bar\<close> leaves
  \<open>bar\<close>, in the callback and in the parse of \<^verbatim>\<open><root>foo<a/>bar</root>\<close>); a text event
  with no open element makes the callback return the stop signal, on which the parse of
  \<^verbatim>\<open>text<root></root>\<close> returns success with an empty document; and a text whose first
  character that is not a space is its last one is taken for spaces.
\<close>

theorem text_event_replaces_text:
  "DOMXMLDoc_node_text ''bar'' \<lparr>dom_doc = root_text_doc (Some ''foo''), dom_current = Some [0]\<rparr>
     = Some (True, \<lparr>dom_doc = root_text_doc (Some ''bar''), dom_current = Some [0]\<rparr>)
   \<and> map_option (\<lambda>(ret, doc). (ret, map node_text (doc_nodes doc)))
        (XMLDoc_parse_file_DOM [] id id (\<lambda>name. Some [''<root>'', ''foo<a/>'', ''bar</root>''])
           ''doc.xml'' empty_doc)
       = Some (True, [Some ''bar''])
   \<and> DOMXMLDoc_node_text ''text'' \<lparr>dom_doc = empty_doc, dom_current = None\<rparr>
       = Some (False, \<lparr>dom_doc = empty_doc, dom_current = None\<rparr>)
   \<and> XMLDoc_parse_file_DOM [] id id (\<lambda>name. Some [''text<root>'', ''</root>''])
         ''doc.xml'' empty_doc
       = Some (True, empty_doc)
   \<and> DOMXMLDoc_node_text ''x'' \<lparr>dom_doc = empty_doc, dom_current = None\<rparr>
       = Some (True, \<lparr>dom_doc = empty_doc, dom_current = None\<rparr>)"
  by code_simp

subsection \<open>The stop signal of a callback\<close>

lemma logged_cb_None [simp]: "logged_cb None"
  by (simp add: logged_cb_def)

lemma logged_cb_log_call [simp]: "logged_cb (Some (log_call k g))"
  by (auto simp: logged_cb_def)

lemma logged_cb_map [simp]: "logged_cb (map_option (\<lambda>g. log_call k (G g)) cb)"
  by (cases cb) auto

lemma invoke_logged:
  assumes "logged_cb cb" and "quiet log"
      and "invoke cb (u, log) = Some (exit, u', log')"
  shows "if exit then stopped log' else quiet log'"
  using assms
  by (cases cb) (auto simp: invoke_def log_call_def logged_cb_def quiet_def stopped_def
        split: option.splits)

lemma invoke2_logged:
  assumes "logged_cb cb1" and "logged_cb cb2" and "quiet log"
      and "invoke2 cb1 cb2 (u, log) = Some (exit, u', log')"
  shows "if exit then stopped log' else quiet log'"
proof (cases "invoke cb1 (u, log)")
  case None
  with assms(4) show ?thesis by (simp add: invoke2_def)
next
  case (Some r)
  obtain e1 u1 l1 where r: "r = (e1, u1, l1)" by (cases r) auto
  have i1: "if e1 then stopped l1 else quiet l1"
    using invoke_logged[OF assms(1,3)] Some r by simp
  show ?thesis
  proof (cases e1)
    case True
    with assms(4) Some r i1 show ?thesis by (auto simp: invoke2_def)
  next
    case False
    with assms(4) Some r have "invoke cb2 (u1, l1) = Some (exit, u', log')"
      by (simp add: invoke2_def)
    from invoke_logged[OF assms(2) _ this] i1 False show ?thesis by simp
  qed
qed

lemma invoke2_logged_dest:
  "invoke2 cb1 cb2 (u, log) = Some (exit, u', log') \<Longrightarrow> logged_cb cb1 \<Longrightarrow> logged_cb cb2
     \<Longrightarrow> quiet log \<Longrightarrow> (exit \<longrightarrow> stopped log') \<and> (\<not> exit \<longrightarrow> quiet log')"
  using invoke2_logged[of cb1 cb2 log u exit u' log'] by auto

lemma sax_text_logged:
  assumes "quiet log" and "sax_text (logged sax) su line (u, log) = Some (exit, u', log')"
  shows "(exit \<longrightarrow> stopped log') \<and> (\<not> exit \<longrightarrow> quiet log')"
proof (cases "line \<noteq> [] \<and> (new_text (logged sax) \<noteq> None \<or> all_event (logged sax) \<noteq> None)")
  case True
  with assms(2) obtain l where
    "invoke2 (map_option (\<lambda>g. log_call CB_new_text (g l)) (new_text sax))
             (map_option (\<lambda>g. log_call CB_all_event (g XML_EVENT_TEXT None (Some l))) (all_event sax))
             (u, log) = Some (exit, u', log')"
    unfolding sax_text_def Let_def
    by (simp add: logged_def option.map_comp comp_def split: if_splits)
  from invoke2_logged_dest[OF this _ _ assms(1)] show ?thesis by simp
next
  case False
  with assms show ?thesis by (auto simp: sax_text_def)
qed

lemma sax_end_logged:
  assumes "quiet log" and "sax_end (logged sax) node (u, log) = Some (exit, u', log')"
  shows "(exit \<longrightarrow> stopped log') \<and> (\<not> exit \<longrightarrow> quiet log')"
proof -
  from assms(2) have
    "invoke2 (map_option (\<lambda>g. log_call CB_end_node (g node)) (end_node sax))
             (map_option (\<lambda>g. log_call CB_all_event (g XML_EVENT_END (Some node) None)) (all_event sax))
             (u, log) = Some (exit, u', log')"
    unfolding sax_end_def by (simp add: logged_def option.map_comp comp_def)
  from invoke2_logged_dest[OF this _ _ assms(1)] show ?thesis by simp
qed

lemma sax_start_logged:
  assumes "quiet log" and "sax_start (logged sax) node (u, log) = Some (exit, u', log')"
  shows "(exit \<longrightarrow> stopped log') \<and> (\<not> exit \<longrightarrow> quiet log')"
proof (cases "invoke2 (map_option (\<lambda>g. log_call CB_start_node (g node)) (start_node sax))
             (map_option (\<lambda>g. log_call CB_all_event (g XML_EVENT_START (Some node) None)) (all_event sax))
             (u, log)")
  case None
  with assms(2) show ?thesis
    unfolding sax_start_def by (simp add: logged_def option.map_comp comp_def)
next
  case (Some r)
  obtain e1 u1 l1 where r: "r = (e1, u1, l1)" by (cases r) auto
  from invoke2_logged_dest[OF Some[unfolded r] _ _ assms(1)]
  have i1: "(e1 \<longrightarrow> stopped l1) \<and> (\<not> e1 \<longrightarrow> quiet l1)" by simp
  have st: "sax_start (logged sax) node (u, log)
      = (if e1 then Some (True, u1, l1)
         else if node_tag_type node \<noteq> TAG_FATHER
                 \<and> (end_node (logged sax) \<noteq> None \<or> all_event (logged sax) \<noteq> None)
           then sax_end (logged sax) node (u1, l1)
         else Some (False, u1, l1))"
    using Some r unfolding sax_start_def by (simp add: logged_def option.map_comp comp_def)
  show ?thesis
  proof (cases e1)
    case True
    with st assms(2) i1 show ?thesis by auto
  next
    case False
    show ?thesis
    proof (cases "node_tag_type node \<noteq> TAG_FATHER
                 \<and> (end_node (logged sax) \<noteq> None \<or> all_event (logged sax) \<noteq> None)")
      case True
      with st False assms(2) have "sax_end (logged sax) node (u1, l1) = Some (exit, u', log')" by simp
      from sax_end_logged[OF _ this] i1 False show ?thesis by simp
    next
      case F: False
      with st False assms(2) i1 show ?thesis by auto
    qed
  qed
qed

lemma sax_iteration_logged:
  assumes "quiet log"
      and "sax_iteration ut su h (logged sax) f line node (u, log) = Some (stop, ret, f', node', u', log')"
  shows "quiet log' \<or> (stopped log' \<and> stop \<and> ret)"
  using assms(2) assms(1)
  unfolding sax_iteration_def Let_def
  by (auto split: if_splits option.splits prod.splits
        dest!: sax_text_logged[rotated] sax_end_logged[rotated] sax_start_logged[rotated])

lemma parse_loop_logged:
  "quiet (snd ul) \<Longrightarrow> XMLDoc_parse_loop ut su h (logged sax) f node ul = Some (ret, u', log')
     \<Longrightarrow> quiet log' \<or> (stopped log' \<and> ret)"
proof (induction ut su h "logged sax" f node ul rule: XMLDoc_parse_loop.induct)
  case (1 ut su h f node user)
  obtain n0 f1 line where rd: "read_line_alloc f [] 0 = (n0, f1, line)"
    by (cases "read_line_alloc f [] 0") auto
  show ?case
  proof (cases "n0 = 0")
    case True
    with "1.prems" rd show ?thesis
      by (simp add: XMLDoc_parse_loop.simps[of ut su h "logged sax" f node user])
  next
    case False
    show ?thesis
    proof (cases "sax_iteration ut su h (logged sax) f1 line node user")
      case None
      with "1.prems" rd False show ?thesis
        by (simp add: XMLDoc_parse_loop.simps[of ut su h "logged sax" f node user])
    next
      case (Some it)
      obtain stop r f2 node2 u2 l2 where it: "it = (stop, r, f2, node2, u2, l2)"
        by (cases it) auto
      have inv: "quiet l2 \<or> (stopped l2 \<and> stop \<and> r)"
        using sax_iteration_logged[of "snd user" ut su h sax f1 line node "fst user"] Some it "1.prems"(1)
        by simp
      show ?thesis
      proof (cases stop)
        case True
        with "1.prems" rd False Some it inv show ?thesis
          by (auto simp: XMLDoc_parse_loop.simps[of ut su h "logged sax" f node user])
      next
        case F: False
        with "1.prems" rd False Some it
        have rec: "XMLDoc_parse_loop ut su h (logged sax) f2 node2 (u2, l2) = Some (ret, u', log')"
          by (simp add: XMLDoc_parse_loop.simps[of ut su h "logged sax" f node user])
        have q: "quiet (snd (u2, l2))" using inv F by simp
        show ?thesis
          by (rule "1.hyps"[OF rd[symmetric] refl False Some it[symmetric] refl refl refl F q rec])
      qed
    qed
  qed
qed

text \<open>
  The newer \<^verbatim>\<open>XMLDoc_parse_file_SAX\<close> honours the stop signal: in the log of a parse,
  whatever the registry, the codecs, the file and the callbacks, every callback but the
  last returned "go on", and when the last returned the stop signal the parse returns
  true.
\<close>

lemma sax_stop_honoured:
  assumes "XMLDoc_parse_file_SAX ut su h fopen filename (logged sax) (u, []) = Some (ret, u', log)"
  shows "list_all snd (butlast log) \<and> (\<not> list_all snd log \<longrightarrow> ret)"
proof -
  have "quiet log \<or> (stopped log \<and> ret)"
  proof (cases "filename = [] \<or> fopen filename = None")
    case True
    with assms show ?thesis
      by (auto simp: XMLDoc_parse_file_SAX_def quiet_def split: if_splits)
  next
    case False
    then obtain f where "fopen filename = Some f" by auto
    with False assms have
      "XMLDoc_parse_loop ut su h (logged sax) f
         (XMLNode_init (XMLNode None None [] [] TAG_NONE None True)) (u, []) = Some (ret, u', log)"
      by (simp add: XMLDoc_parse_file_SAX_def)
    from parse_loop_logged[OF _ this] show ?thesis by (simp add: quiet_def)
  qed
  moreover have "list_all snd xs \<Longrightarrow> list_all snd (butlast xs)" for xs :: "(callback \<times> bool) list"
    by (induction xs) auto
  ultimately show ?thesis by (auto simp: quiet_def stopped_def)
qed

text \<open>
  C8, with a start callback that returns the stop signal. At the file \<^verbatim>\<open><!--c-->\<close> the
  older \<^verbatim>\<open>XMLDoc_parse_file_SAX\<close> goes on to call the end callback for the comment and
  the end-of-document callback; at \<^verbatim>\<open><!--c--><r>\<close> the result of the end callback has
  replaced the stop signal, and the text callback and the start-of-document callback for
  \<open>r\<close> follow as well. The newer one stops at the start callback and returns true.
\<close>

theorem stop_signal_lost_before_root:
  "XMLDoc_parse_file_SAX_old junk h (\<lambda>name. Some [''<!--c-->'']) ''doc.xml''
       (logged_old stop_at_start_old) ((), [])
     = Some (True, (),
         [(CB_new_text, True), (CB_start_node, False), (CB_end_node, True), (CB_end_doc, True)])
   \<and> XMLDoc_parse_file_SAX_old junk h (\<lambda>name. Some [''<!--c-->'', ''<r>'']) ''doc.xml''
       (logged_old stop_at_start_old) ((), [])
     = Some (True, (),
         [(CB_new_text, True), (CB_start_node, False), (CB_end_node, True),
          (CB_new_text, True), (CB_start_doc, True), (CB_end_doc, True)])
   \<and> XMLDoc_parse_file_SAX ut su h (\<lambda>name. Some [''<!--c-->'', ''<r>'']) ''doc.xml''
       (logged stop_at_start) ((), [])
     = Some (True, (), [(CB_start_node, False)])"
  by code_simp

end
